theory Spec2Isabelle
  imports Main "HOL-Library.AList"
begin

section \<open>JavaScript values\<close>

text \<open>
  The module \<^verbatim>\<open>src/index.js\<close> handles untyped values: the profile that the provider
  sends, the rows that the database answers with, the user data it builds from them.
  They are kept as the values of JSON plus \<^verbatim>\<open>undefined\<close>. An object is the list of its own
  properties, the first binding of a name being the one in force. Numbers are kept as
  integers: the code only asks whether a number is zero.

  None of these values is a function. So a method that an object inherits from
  \<^verbatim>\<open>Object.prototype\<close> is lost to it when it has an own property of the same name:
  calling \<^verbatim>\<open>v.hasOwnProperty\<close> is then a \<^verbatim>\<open>TypeError\<close>. The properties that the code reads
  (\<^verbatim>\<open>id\<close>, \<^verbatim>\<open>name\<close>, \<^verbatim>\<open>email\<close>, \<^verbatim>\<open>facebookId\<close>, \<^verbatim>\<open>fullName\<close>) are names that
  \<^verbatim>\<open>Object.prototype\<close> does not define, so reading one that is not an own property
  gives \<^verbatim>\<open>undefined\<close>.
\<close>

datatype js_value =
    JUndefined
  | JNull
  | JBool bool
  | JNum int
  | JStr string
  | JArr "js_value list"
  | JObj "(string \<times> js_value) list"

text \<open>What a \<^verbatim>\<open>throw\<close> or a rejected promise carries.\<close>

datatype js_error = TypeError | SyntaxError | Error string

text \<open>The truth value that \<^verbatim>\<open>!v\<close>, \<^verbatim>\<open>v || w\<close> and \<^verbatim>\<open>if (v)\<close> read off a value.\<close>

fun truthy :: "js_value \<Rightarrow> bool" where
  "truthy JUndefined = False"
| "truthy JNull = False"
| "truthy (JBool b) = b"
| "truthy (JNum n) = (n \<noteq> 0)"
| "truthy (JStr s) = (s \<noteq> [])"
| "truthy (JArr xs) = True"
| "truthy (JObj ps) = True"

text \<open>The decimal name of an array index.\<close>

fun show_nat :: "nat \<Rightarrow> string" where
  "show_nat n =
     (if n < 10 then [char_of (48 + n)]
      else show_nat (n div 10) @ [char_of (48 + n mod 10)])"

declare show_nat.simps [simp del]

definition index_names :: "nat \<Rightarrow> string list" where
  "index_names n = map show_nat [0..<n]"

text \<open>
  \<^verbatim>\<open>v.hasOwnProperty(k)\<close>, the method being looked up on \<^verbatim>\<open>v\<close> itself: a \<^verbatim>\<open>TypeError\<close> on
  \<^verbatim>\<open>null\<close> and \<^verbatim>\<open>undefined\<close>, and on an object that has an own property named
  \<^verbatim>\<open>hasOwnProperty\<close>, whose value is no function; an array and a string own their
  indices and \<^verbatim>\<open>length\<close>, a boolean and a number own nothing.
\<close>

fun hasOwnProperty :: "js_value \<Rightarrow> string \<Rightarrow> js_error + bool" where
  "hasOwnProperty JUndefined k = Inl TypeError"
| "hasOwnProperty JNull k = Inl TypeError"
| "hasOwnProperty (JBool b) k = Inr False"
| "hasOwnProperty (JNum n) k = Inr False"
| "hasOwnProperty (JStr s) k = Inr (k = ''length'' \<or> k \<in> set (index_names (length s)))"
| "hasOwnProperty (JArr xs) k = Inr (k = ''length'' \<or> k \<in> set (index_names (length xs)))"
| "hasOwnProperty (JObj ps) k =
     (if ''hasOwnProperty'' \<in> set (map fst ps) then Inl TypeError
      else Inr (k \<in> set (map fst ps)))"

text \<open>
  \<^verbatim>\<open>v.k\<close> on a value that is neither \<^verbatim>\<open>null\<close> nor \<^verbatim>\<open>undefined\<close>: the own property, and
  \<^verbatim>\<open>undefined\<close> when there is none.
\<close>

definition element :: "js_value list \<Rightarrow> string \<Rightarrow> js_value" where
  "element xs k =
     (case filter (\<lambda>i. show_nat i = k) [0..<length xs] of
        [] \<Rightarrow> JUndefined
      | i # _ \<Rightarrow> xs ! i)"

fun property :: "js_value \<Rightarrow> string \<Rightarrow> js_value" where
  "property (JObj ps) k = (case map_of ps k of None \<Rightarrow> JUndefined | Some v \<Rightarrow> v)"
| "property (JArr xs) k = (if k = ''length'' then JNum (int (length xs)) else element xs k)"
| "property (JStr s) k =
     (if k = ''length'' then JNum (int (length s))
      else element (map (\<lambda>c. JStr [c]) s) k)"
| "property v k = JUndefined"

text \<open>\<^verbatim>\<open>v.k\<close> on any value: reading a property of \<^verbatim>\<open>null\<close> or \<^verbatim>\<open>undefined\<close> throws.\<close>

definition get_property :: "js_value \<Rightarrow> string \<Rightarrow> js_error + js_value" where
  "get_property v k =
     (if v = JUndefined \<or> v = JNull then Inl TypeError else Inr (property v k))"

section \<open>The world around the module\<close>

text \<open>The argument of \<^verbatim>\<open>request(options)\<close>.\<close>

record Options =
  url :: string
  headers :: "(string \<times> string) list"

text \<open>
  The text of a response, kept as what \<^verbatim>\<open>JSON.parse\<close> makes of it: a text that is not
  JSON, or the text of a JSON value.
\<close>

datatype response_text = Malformed | Text js_value

fun JSON_parse :: "response_text \<Rightarrow> js_error + js_value" where
  "JSON_parse Malformed = Inl SyntaxError"
| "JSON_parse (Text v) = Inr v"

text \<open>
  The two statements that the module sends through \<^verbatim>\<open>squel\<close>, with their parameters:
  \<^item> \<^verbatim>\<open>SELECT id, facebook_user_id AS "facebookId", email, full_name AS "fullName"
    FROM site_user WHERE (facebook_user_id = ?) LIMIT 1\<close>
  \<^item> \<^verbatim>\<open>INSERT INTO site_user (facebook_user_id, email, full_name) VALUES (?, ?, ?)
    RETURNING id\<close>

  Building a statement is taken not to fail: what the database makes of the parameters
  shows in the answer of the connection.
\<close>

datatype query =
    Select_site_user js_value
  | Insert_site_user js_value js_value js_value

text \<open>
  A connection of \<^verbatim>\<open>metisoft-database-util\<close>, which is not part of this repository, is
  taken as a parameter: what \<^verbatim>\<open>squelQueryReturningOne\<close> answers to a statement in a state
  of the database (\<open>Inl\<close>: the promise is rejected), and the state it leaves.
\<close>

type_synonym 'db connection = "query \<Rightarrow> 'db \<Rightarrow> (js_error + js_value) \<times> 'db"

text \<open>
  What the module does to the world outside, in the order it does it. \<open>SaveUserToDb\<close>
  marks an entry into \<^verbatim>\<open>__saveUserToDb\<close>, the store's lookup-or-create.
\<close>

datatype event =
    Request Options
  | SaveUserToDb "(string \<times> js_value) list"
  | Query query
  | ConsoleError js_error
  | SessionDestroy
  | SessionSave
  | ResSend js_value
  | ResEnd
  | Next

text \<open>
  The module's two variables, \<^verbatim>\<open>__mapAccessToken2UserData\<close> (line 20) and \<^verbatim>\<open>dbc\<close>
  (line 7, \<^verbatim>\<open>undefined\<close> until \<^verbatim>\<open>config\<close> runs), with the database behind the connection
  and the events so far. The first is a plain object used as a dictionary: it is kept
  as its own properties and its prototype, \<open>None\<close> while that is \<^verbatim>\<open>Object.prototype\<close> as
  the literal \<^verbatim>\<open>{}\<close> made it.
\<close>

record 'db world =
  mapAccessToken2UserData :: "string \<rightharpoonup> js_value"
  prototype :: "js_value option"
  dbc :: "'db connection option"
  database :: 'db
  trace :: "event list"

text \<open>
  What the outside answers during one call of the middleware: the provider to
  \<^verbatim>\<open>request(options)\<close> (\<open>Inl\<close>: transport failure or a status that is not a success), and
  the session store to \<^verbatim>\<open>req.session.save\<close> (the error it hands to the callback, if any,
  and whether it runs the callback before \<^verbatim>\<open>save\<close> returns or later).
\<close>

record env =
  request :: "Options \<Rightarrow> js_error + response_text"
  save_error :: "js_error option"
  save_at_once :: bool

definition logged :: "event list \<Rightarrow> 'db world \<Rightarrow> 'db world" where
  "logged es w = w\<lparr>trace := trace w @ es\<rparr>"

text \<open>The events of a run from \<open>w\<close> to \<open>w'\<close>.\<close>

definition new_events :: "'db world \<Rightarrow> 'db world \<Rightarrow> event list" where
  "new_events w w' = drop (length (trace w)) (trace w')"

fun is_provider_call :: "event \<Rightarrow> bool" where
  "is_provider_call (Request opts) = True"
| "is_provider_call ev = False"

fun is_store_call :: "event \<Rightarrow> bool" where
  "is_store_call (SaveUserToDb userData) = True"
| "is_store_call ev = False"

fun is_query :: "event \<Rightarrow> bool" where
  "is_query (Query q) = True"
| "is_query ev = False"

fun is_select :: "event \<Rightarrow> bool" where
  "is_select (Query (Select_site_user f)) = True"
| "is_select ev = False"

fun is_insert :: "event \<Rightarrow> bool" where
  "is_insert (Query (Insert_site_user f e n)) = True"
| "is_insert ev = False"

text \<open>What a request's client and the handlers after the middleware can see of it.\<close>

fun is_reply :: "event \<Rightarrow> bool" where
  "is_reply (ResSend v) = True"
| "is_reply ResEnd = True"
| "is_reply Next = True"
| "is_reply ev = False"

section \<open>The identity resolver and the user store adapter\<close>

text \<open>
  \<^verbatim>\<open>__getUserDataFromFacebook\<close>, lines 94-104, and its variable \<^verbatim>\<open>options\<close>. The value is
  how the promise of \<^verbatim>\<open>request(options)\<close> settles.
\<close>

definition options :: "string \<Rightarrow> Options" where
  "options accessToken =
     \<lparr>url = ''https://graph.facebook.com/v2.10/me?fields=id,name,email'',
      headers = [(''Content-Type'', ''application/json''),
                 (''Authorization'', ''OAuth '' @ accessToken)]\<rparr>"

definition getUserDataFromFacebook ::
  "env \<Rightarrow> string \<Rightarrow> 'db world \<Rightarrow> (js_error + response_text) \<times> 'db world" where
  "getUserDataFromFacebook e accessToken w =
     (request e (options accessToken), logged [Request (options accessToken)] w)"

text \<open>\<^verbatim>\<open>__isValidFacebookUserData\<close>, lines 117-123; \<^verbatim>\<open>&&\<close> stops at the first \<^verbatim>\<open>false\<close>.\<close>

definition isValidFacebookUserData :: "js_value \<Rightarrow> js_error + bool" where
  "isValidFacebookUserData facebookUserData =
     (case hasOwnProperty facebookUserData ''id'' of
        Inl err \<Rightarrow> Inl err
      | Inr False \<Rightarrow> Inr False
      | Inr True \<Rightarrow>
          (case hasOwnProperty facebookUserData ''name'' of
             Inl err \<Rightarrow> Inl err
           | Inr False \<Rightarrow> Inr False
           | Inr True \<Rightarrow> hasOwnProperty facebookUserData ''email''))"

text \<open>\<^verbatim>\<open>__formatUserDataAsInternal\<close>, lines 136-144. The result is an object.\<close>

definition formatUserDataAsInternal ::
  "js_value \<Rightarrow> js_error + (string \<times> js_value) list" where
  "formatUserDataAsInternal facebookUserData =
     (case get_property facebookUserData ''id'' of
        Inl err \<Rightarrow> Inl err
      | Inr i \<Rightarrow>
          (case get_property facebookUserData ''name'' of
             Inl err \<Rightarrow> Inl err
           | Inr n \<Rightarrow>
               (case get_property facebookUserData ''email'' of
                  Inl err \<Rightarrow> Inl err
                | Inr m \<Rightarrow> Inr [(''facebookId'', i), (''fullName'', n), (''email'', m)])))"

text \<open>\<^verbatim>\<open>dbc.squelQueryReturningOne(query.toParam())\<close> on a connection.\<close>

definition squelQueryReturningOne ::
  "'db connection \<Rightarrow> query \<Rightarrow> 'db world \<Rightarrow> (js_error + js_value) \<times> 'db world" where
  "squelQueryReturningOne c q w =
     (case c q (database w) of
        (answer, db) \<Rightarrow> (answer, w\<lparr>database := db, trace := trace w @ [Query q]\<rparr>))"

text \<open>
  \<^verbatim>\<open>__getUserFromDb\<close>, lines 181-194. With \<^verbatim>\<open>dbc\<close> undefined, \<^verbatim>\<open>dbc.getSquelSelect()\<close>
  throws a \<^verbatim>\<open>TypeError\<close>.
\<close>

definition getUserFromDb ::
  "js_value \<Rightarrow> 'db world \<Rightarrow> (js_error + js_value) \<times> 'db world" where
  "getUserFromDb facebookId w =
     (case dbc w of
        None \<Rightarrow> (Inl TypeError, w)
      | Some c \<Rightarrow> squelQueryReturningOne c (Select_site_user facebookId) w)"

text \<open>
  \<^verbatim>\<open>__addUserToDb\<close>, lines 208-228. Its \<^verbatim>\<open>.catch\<close> covers the query and \<^verbatim>\<open>row.id\<close>, not
  the building of the query before them.
\<close>

definition addUserToDb ::
  "(string \<times> js_value) list \<Rightarrow> 'db world \<Rightarrow> (js_error + js_value) \<times> 'db world" where
  "addUserToDb userData w =
     (case dbc w of
        None \<Rightarrow> (Inl TypeError, w)
      | Some c \<Rightarrow>
          (case squelQueryReturningOne c
                  (Insert_site_user (property (JObj userData) ''facebookId'')
                     (property (JObj userData) ''email'') (property (JObj userData) ''fullName'')) w of
             (Inl err, w') \<Rightarrow> (Inr JNull, logged [ConsoleError err] w')
           | (Inr row, w') \<Rightarrow>
               (case get_property row ''id'' of
                  Inl err \<Rightarrow> (Inr JNull, logged [ConsoleError err] w')
                | Inr i \<Rightarrow> (Inr (JObj (AList.update ''id'' i userData)), w'))))"

text \<open>\<^verbatim>\<open>__saveUserToDb\<close>, lines 158-168.\<close>

definition saveUserToDb ::
  "(string \<times> js_value) list \<Rightarrow> 'db world \<Rightarrow> (js_error + js_value) \<times> 'db world" where
  "saveUserToDb userData w =
     (case getUserFromDb (property (JObj userData) ''facebookId'')
             (logged [SaveUserToDb userData] w) of
        (Inl err, w') \<Rightarrow> (Inl err, w')
      | (Inr user, w') \<Rightarrow>
          (case get_property user ''id'' of
             Inl err \<Rightarrow> (Inl err, w')
           | Inr i \<Rightarrow> if \<not> truthy i then addUserToDb userData w' else (Inr user, w')))"

text \<open>
  The chain of lines 51-63: the call of the provider and the first \<^verbatim>\<open>.then\<close>, which parses,
  validates, formats and saves.
\<close>

definition verifyAndSave ::
  "env \<Rightarrow> string \<Rightarrow> 'db world \<Rightarrow> (js_error + js_value) \<times> 'db world" where
  "verifyAndSave e accessToken w =
     (case getUserDataFromFacebook e accessToken w of
        (Inl err, w') \<Rightarrow> (Inl err, w')
      | (Inr userDataFromFacebook, w') \<Rightarrow>
          (case JSON_parse userDataFromFacebook of
             Inl err \<Rightarrow> (Inl err, w')
           | Inr parsed \<Rightarrow>
               (case isValidFacebookUserData parsed of
                  Inl err \<Rightarrow> (Inl err, w')
                | Inr False \<Rightarrow> (Inr JNull, w')
                | Inr True \<Rightarrow>
                    (case formatUserDataAsInternal parsed of
                       Inl err \<Rightarrow> (Inl err, w')
                     | Inr internalUserData \<Rightarrow> saveUserToDb internalUserData w'))))"

text \<open>
  The cache object finds \<^verbatim>\<open>hasOwnProperty\<close> on \<^verbatim>\<open>Object.prototype\<close> unless something
  stands in the way: an own property of that name, a prototype that has one, or no
  prototype at all.
\<close>

fun hides :: "js_value \<Rightarrow> bool" where
  "hides (JObj ps) = (''hasOwnProperty'' \<in> set (map fst ps))"
| "hides JNull = True"
| "hides v = False"

definition shadowed :: "'db world \<Rightarrow> bool" where
  "shadowed w =
     (''hasOwnProperty'' \<in> dom (mapAccessToken2UserData w) \<or>
      (case prototype w of None \<Rightarrow> False | Some p \<Rightarrow> hides p))"

text \<open>Line 47: \<^verbatim>\<open>__mapAccessToken2UserData.hasOwnProperty(accessToken)\<close>.\<close>

definition cached :: "'db world \<Rightarrow> string \<Rightarrow> js_error + bool" where
  "cached w accessToken =
     (if shadowed w then Inl TypeError
      else Inr (accessToken \<in> dom (mapAccessToken2UserData w)))"

text \<open>
  Line 67: \<^verbatim>\<open>__mapAccessToken2UserData[accessToken] = userData\<close>. Under the name
  \<^verbatim>\<open>__proto__\<close> the assignment runs the setter that the object inherits: an object or
  \<^verbatim>\<open>null\<close> becomes the prototype, any other value is dropped, and no own property is
  made. Under any other name it makes or overwrites an own property.
\<close>

fun becomes_prototype :: "js_value \<Rightarrow> bool" where
  "becomes_prototype (JObj ps) = True"
| "becomes_prototype (JArr xs) = True"
| "becomes_prototype JNull = True"
| "becomes_prototype v = False"

definition assign :: "string \<Rightarrow> js_value \<Rightarrow> 'db world \<Rightarrow> 'db world" where
  "assign accessToken userData w =
     (if accessToken = ''__proto__''
      then (if becomes_prototype userData then w\<lparr>prototype := Some userData\<rparr> else w)
      else w\<lparr>mapAccessToken2UserData :=
               (mapAccessToken2UserData w)(accessToken \<mapsto> userData)\<rparr>)"

text \<open>
  \<^verbatim>\<open>__getUserDataFromAccessToken\<close>, lines 46-79: the cache, then the chain above, the
  second \<^verbatim>\<open>.then\<close> (lines 65-72) and the \<^verbatim>\<open>.catch\<close> (lines 74-77). The promise it returns
  is never rejected: \<open>Inr\<close> is the value it is fulfilled with, \<open>Inl\<close> the exception that
  line 47 throws before there is a promise.
\<close>

definition getUserDataFromAccessToken ::
  "env \<Rightarrow> string \<Rightarrow> 'db world \<Rightarrow> (js_error + js_value) \<times> 'db world" where
  "getUserDataFromAccessToken e accessToken w =
     (case cached w accessToken of
        Inl err \<Rightarrow> (Inl err, w)
      | Inr True \<Rightarrow>
          (Inr (case mapAccessToken2UserData w accessToken of
                  None \<Rightarrow> JUndefined
                | Some userData \<Rightarrow> userData), w)
      | Inr False \<Rightarrow>
          (case verifyAndSave e accessToken w of
             (Inl err, w') \<Rightarrow> (Inr JNull, logged [ConsoleError err] w')
           | (Inr userData, w') \<Rightarrow>
               if userData \<noteq> JNull
               then (Inr userData, assign accessToken userData w')
               else (Inr JNull, w')))"

section \<open>The middleware\<close>

text \<open>
  What the middleware reads and writes of \<^verbatim>\<open>req\<close> and \<^verbatim>\<open>res\<close>. A property that may be
  missing is an option, \<open>None\<close> for \<^verbatim>\<open>undefined\<close>. \<^verbatim>\<open>req.body\<close> and \<^verbatim>\<open>req.session.user\<close>
  both hold a \<^verbatim>\<open>facebookAccessToken\<close>, which is a string, as line 43 documents the
  token: a request whose token is another kind of value is not a request of this model.
\<close>

record Credentials =
  facebookAccessToken :: "string option"

record Session =
  user :: "Credentials option"

record Request =
  url :: string
  body :: "Credentials option"
  session :: "Session option"

text \<open>\<^verbatim>\<open>res.locals.metisoft.user\<close>, an object, and the two objects around it.\<close>

record Metisoft =
  user :: "(string \<times> js_value) list option"

record Locals =
  metisoft :: "Metisoft option"

record Response =
  locals :: "Locals option"

text \<open>\<^verbatim>\<open>__isLogoutRoute\<close>, lines 320-322.\<close>

definition isLogoutRoute :: "string \<Rightarrow> bool" where
  "isLogoutRoute u = (u = ''/services/userAuth/logout'')"

text \<open>
  \<^verbatim>\<open>c && c.facebookAccessToken\<close> as a condition and as the value then assigned: the token
  when it is there and is not the empty string, which is falsy.
\<close>

definition token_in :: "Credentials option \<Rightarrow> string option" where
  "token_in c =
     (case c of
        None \<Rightarrow> None
      | Some holder \<Rightarrow>
          (case facebookAccessToken holder of
             None \<Rightarrow> None
           | Some t \<Rightarrow> if t = [] then None else Some t))"

text \<open>Lines 251-255: the variable \<^verbatim>\<open>accessToken\<close>, \<open>None\<close> while it is \<^verbatim>\<open>undefined\<close>.\<close>

definition extractAccessToken :: "Request \<Rightarrow> string option" where
  "extractAccessToken req =
     (case token_in (body req) of
        Some t \<Rightarrow> Some t
      | None \<Rightarrow>
          (case session req of
             None \<Rightarrow> None
           | Some s \<Rightarrow> token_in (Session.user s)))"

text \<open>The property name that \<^verbatim>\<open>obj[accessToken]\<close> addresses.\<close>

definition property_key :: "string option \<Rightarrow> string" where
  "property_key accessToken =
     (case accessToken of None \<Rightarrow> ''undefined'' | Some t \<Rightarrow> t)"

text \<open>Lines 296-303, and the same statements again in lines 307-314.\<close>

definition loginRequired :: "Request \<Rightarrow> 'db world \<Rightarrow> Request \<times> 'db world" where
  "loginRequired req w =
     ((case session req of
         None \<Rightarrow> req
       | Some s \<Rightarrow>
           (case Session.user s of
              None \<Rightarrow> req
            | Some u \<Rightarrow> req\<lparr>session := Some (s\<lparr>Session.user := None\<rparr>)\<rparr>)),
      logged [ResSend (JObj [(''error'', JStr ''LOGIN_REQUIRED'')]), ResEnd] w)"

text \<open>Lines 271-278: \<^verbatim>\<open>res.locals.metisoft.user\<close> takes the four fields of the user data.\<close>

definition identify :: "js_value \<Rightarrow> Response \<Rightarrow> Response" where
  "identify userData res =
     (let locals0 = (case locals res of None \<Rightarrow> \<lparr>metisoft = None\<rparr> | Some l \<Rightarrow> l);
          metisoft0 =
            (case metisoft locals0 of None \<Rightarrow> \<lparr>Metisoft.user = None\<rparr> | Some m \<Rightarrow> m);
          user0 = (case Metisoft.user metisoft0 of None \<Rightarrow> [] | Some u \<Rightarrow> u);
          user1 =
            AList.update ''fullName'' (property userData ''fullName'')
              (AList.update ''email'' (property userData ''email'')
                 (AList.update ''facebookId'' (property userData ''facebookId'')
                    (AList.update ''id'' (property userData ''id'') user0)))
      in res\<lparr>locals :=
           Some (locals0\<lparr>metisoft := Some (metisoft0\<lparr>Metisoft.user := Some user1\<rparr>)\<rparr>)\<rparr>)"

text \<open>Lines 281-282: the token goes into \<^verbatim>\<open>req.session.user\<close>.\<close>

definition remember :: "string \<Rightarrow> Session \<Rightarrow> Session" where
  "remember accessToken s =
     s\<lparr>Session.user :=
         Some ((case Session.user s of
                  None \<Rightarrow> \<lparr>facebookAccessToken = None\<rparr>
                | Some u \<Rightarrow> u)\<lparr>facebookAccessToken := Some accessToken\<rparr>)\<rparr>"

text \<open>
  \<^verbatim>\<open>facebookAuthMiddleware\<close>, lines 247-316. The result is the exception that reaches the
  caller, if any, then \<^verbatim>\<open>req\<close>, \<^verbatim>\<open>res\<close> and the world as the call leaves them.

  On the logout route \<^verbatim>\<open>req.session.destroy()\<close> follows the \<^verbatim>\<open>delete\<close>; it is a call on
  \<^verbatim>\<open>undefined\<close>, a \<^verbatim>\<open>TypeError\<close>, when the request has no session. The session object is
  express-session's: \<^verbatim>\<open>destroy\<close> takes it off the request. The callback of \<^verbatim>\<open>save\<close> runs
  before or after \<^verbatim>\<open>next()\<close> is called, as the session store has it. Off the logout
  route an exception of line 47 leaves the middleware as it is: the call of line 264 is
  not inside a promise.
\<close>

definition save_callback :: "env \<Rightarrow> event list" where
  "save_callback e = (case save_error e of None \<Rightarrow> [] | Some err \<Rightarrow> [ConsoleError err])"

definition facebookAuthMiddleware ::
  "env \<Rightarrow> Request \<Rightarrow> Response \<Rightarrow> 'db world
     \<Rightarrow> js_error option \<times> Request \<times> Response \<times> 'db world" where
  "facebookAuthMiddleware e req res w =
     (let accessToken = extractAccessToken req in
      if isLogoutRoute (Request.url req) then
        (let w' = w\<lparr>mapAccessToken2UserData :=
                      (mapAccessToken2UserData w)(property_key accessToken := None)\<rparr>
         in case session req of
              None \<Rightarrow> (Some TypeError, req, res, w')
            | Some s \<Rightarrow>
                (None, req\<lparr>session := None\<rparr>, res, logged [SessionDestroy, Next] w'))
      else
        (case accessToken of
           Some t \<Rightarrow>
             (case getUserDataFromAccessToken e t w of
                (Inl err, w') \<Rightarrow> (Some err, req, res, w')
              | (Inr userData, w') \<Rightarrow>
                  if \<not> truthy userData then
                    (case loginRequired req
                            (logged [ConsoleError (Error ''LOGIN_REQUIRED'')] w') of
                       (req', w'') \<Rightarrow> (None, req', res, w''))
                  else
                    (case session req of
                       None \<Rightarrow> (None, req, identify userData res, logged [Next] w')
                     | Some s \<Rightarrow>
                         (None, req\<lparr>session := Some (remember t s)\<rparr>,
                          identify userData res,
                          logged (if save_at_once e
                                  then SessionSave # save_callback e @ [Next]
                                  else SessionSave # Next # save_callback e) w')))
         | None \<Rightarrow>
             (case loginRequired req w of (req', w') \<Rightarrow> (None, req', res, w'))))"

text \<open>
  \<^verbatim>\<open>config\<close>, lines 334-336. Its argument stands for the connection that
  \<^verbatim>\<open>DatabaseConnection.getConnection\<close> returns for the database configuration.
\<close>

definition config :: "'db connection \<Rightarrow> 'db world \<Rightarrow> 'db world" where
  "config c w = w\<lparr>dbc := Some c\<rparr>"

text \<open>The module as \<^verbatim>\<open>require\<close> leaves it: the cache is \<^verbatim>\<open>{}\<close>, and no connection.\<close>

definition loaded :: "'db \<Rightarrow> 'db world" where
  "loaded db =
     \<lparr>mapAccessToken2UserData = Map.empty, prototype = None, dbc = None, database = db,
      trace = []\<rparr>"

text \<open>
  The life of the process: calls of \<^verbatim>\<open>config\<close> and of the middleware, one after the
  other. A call of the middleware is followed to the end of its promise chain before
  the next one begins; two requests in flight at once are not modelled. A request whose
  call threw leaves the world to the next one as it was then.
\<close>

datatype 'db call =
    Config "'db connection"
  | Middleware env Request Response

fun step :: "'db call \<Rightarrow> 'db world \<Rightarrow> 'db world" where
  "step (Config c) w = config c w"
| "step (Middleware e req res) w = snd (snd (snd (facebookAuthMiddleware e req res w)))"

fun run :: "'db call list \<Rightarrow> 'db world \<Rightarrow> 'db world" where
  "run [] w = w"
| "run (c # cs) w = run cs (step c w)"

section \<open>A store and a provider for the scenarios\<close>

text \<open>
  Modelled from the spec: the relational store of section 6, which the repository
  reaches through \<^verbatim>\<open>metisoft-database-util\<close> and does not contain. One table of rows
  (\<^verbatim>\<open>id\<close>, \<^verbatim>\<open>facebookId\<close>, \<^verbatim>\<open>email\<close>, \<^verbatim>\<open>fullName\<close>) and the next identifier to hand out; the
  select is an exact match on the external identifier and answers an object without
  \<^verbatim>\<open>id\<close> when no row matches, the insert answers the generated identifier.
\<close>

type_synonym table = "(string \<times> js_value) list list \<times> int"

fun site_user :: "query \<Rightarrow> table \<Rightarrow> (js_error + js_value) \<times> table" where
  "site_user (Select_site_user facebookId) (rows, serial) =
     (Inr (case filter (\<lambda>row. map_of row ''facebookId'' = Some facebookId) rows of
             [] \<Rightarrow> JObj []
           | row # _ \<Rightarrow> JObj row),
      (rows, serial))"
| "site_user (Insert_site_user facebookId email fullName) (rows, serial) =
     (Inr (JObj [(''id'', JNum serial)]),
      (rows @ [[(''id'', JNum serial), (''facebookId'', facebookId), (''email'', email),
                (''fullName'', fullName)]],
       serial + 1))"

text \<open>The same store when it refuses every insert.\<close>

fun read_only :: "query \<Rightarrow> table \<Rightarrow> (js_error + js_value) \<times> table" where
  "read_only (Insert_site_user facebookId email fullName) db =
     (Inl (Error ''insert refused''), db)"
| "read_only q db = site_user q db"

text \<open>
  The scenarios of section 8. For the token \<^verbatim>\<open>T1\<close> the provider sends Ann's profile;
  resolving it on a configured module whose store has no row, 7 being the next
  identifier, yields her record and leaves her known. For \<^verbatim>\<open>T2\<close> the provider sends a
  profile without email. Two more tokens: \<^verbatim>\<open>T3\<close>, whose profile has the three keys with
  the values \<^verbatim>\<open>null\<close>, the empty string and 0, and \<^verbatim>\<open>T4\<close>, whose answer is not JSON. The
  token \<^verbatim>\<open>T5\<close> is Eve's, whose profile has a fourth key, \<^verbatim>\<open>hasOwnProperty\<close>, and Ann also
  has the token \<^verbatim>\<open>__proto__\<close>. Any other token is refused.
\<close>

definition ann_profile :: js_value where
  "ann_profile =
     JObj [(''id'', JStr ''F1''), (''name'', JStr ''Ann''), (''email'', JStr ''a@x.com'')]"

definition bob_profile :: js_value where
  "bob_profile = JObj [(''id'', JStr ''F2''), (''name'', JStr ''Bob'')]"

definition odd_profile :: js_value where
  "odd_profile = JObj [(''id'', JNull), (''name'', JStr []), (''email'', JNum 0)]"

definition eve_profile :: js_value where
  "eve_profile =
     JObj [(''id'', JStr ''F5''), (''name'', JStr ''Eve''), (''email'', JStr ''e@x.com''),
           (''hasOwnProperty'', JNum 1)]"

definition authorization :: "Options \<Rightarrow> string" where
  "authorization opts =
     (case map_of (headers opts) ''Authorization'' of None \<Rightarrow> [] | Some h \<Rightarrow> h)"

definition facebook :: "Options \<Rightarrow> js_error + response_text" where
  "facebook opts =
     (if authorization opts = ''OAuth T1'' then Inr (Text ann_profile)
      else if authorization opts = ''OAuth T2'' then Inr (Text bob_profile)
      else if authorization opts = ''OAuth T3'' then Inr (Text odd_profile)
      else if authorization opts = ''OAuth T4'' then Inr Malformed
      else if authorization opts = ''OAuth T5'' then Inr (Text eve_profile)
      else if authorization opts = ''OAuth __proto__'' then Inr (Text ann_profile)
      else Inl (Error ''400''))"

definition online :: env where
  "online = \<lparr>request = facebook, save_error = None, save_at_once = False\<rparr>"

text \<open>The same provider on a day when the session store fails to save.\<close>

definition store_down :: env where
  "store_down =
     \<lparr>request = facebook, save_error = Some (Error ''session store down''),
      save_at_once = False\<rparr>"

definition ann_fresh :: "(string \<times> js_value) list" where
  "ann_fresh =
     [(''facebookId'', JStr ''F1''), (''fullName'', JStr ''Ann''), (''email'', JStr ''a@x.com'')]"

definition ann_row :: "(string \<times> js_value) list" where
  "ann_row =
     [(''id'', JNum 7), (''facebookId'', JStr ''F1''), (''email'', JStr ''a@x.com''),
      (''fullName'', JStr ''Ann'')]"

definition ann :: js_value where
  "ann =
     JObj [(''facebookId'', JStr ''F1''), (''fullName'', JStr ''Ann''),
           (''email'', JStr ''a@x.com''), (''id'', JNum 7)]"

definition odd_record :: js_value where
  "odd_record =
     JObj [(''facebookId'', JNull), (''fullName'', JStr []), (''email'', JNum 0),
           (''id'', JNum 7)]"

definition empty_store :: "table world" where
  "empty_store = config site_user (loaded ([], 7))"

definition ann_known :: "table world" where
  "ann_known =
     \<lparr>mapAccessToken2UserData = [''T1'' \<mapsto> ann],
      prototype = None,
      dbc = Some site_user,
      database = ([ann_row], 8),
      trace = [Request (options ''T1''), SaveUserToDb ann_fresh,
               Query (Select_site_user (JStr ''F1'')),
               Query (Insert_site_user (JStr ''F1'') (JStr ''a@x.com'') (JStr ''Ann''))]\<rparr>"

text \<open>
  The world after Ann's first resolution when her token is \<^verbatim>\<open>__proto__\<close>: her record is
  the prototype of the cache object, which has no own property.
\<close>

definition ann_lost :: "table world" where
  "ann_lost =
     \<lparr>mapAccessToken2UserData = Map.empty,
      prototype = Some ann,
      dbc = Some site_user,
      database = ([ann_row], 8),
      trace = [Request (options ''__proto__''), SaveUserToDb ann_fresh,
               Query (Select_site_user (JStr ''F1'')),
               Query (Insert_site_user (JStr ''F1'') (JStr ''a@x.com'') (JStr ''Ann''))]\<rparr>"

text \<open>
  Ann's profile as the provider would send it after she changed her name and email, and
  a table whose row for her has the identifier 0.
\<close>

definition ann_changed :: "(string \<times> js_value) list" where
  "ann_changed =
     [(''facebookId'', JStr ''F1''), (''fullName'', JStr ''Ann B''),
      (''email'', JStr ''b@x.com'')]"

definition zero_table :: table where
  "zero_table =
     ([[(''id'', JNum 0), (''facebookId'', JStr ''F1''), (''email'', JStr ''old@x.com''),
        (''fullName'', JStr ''Ann Old'')]], 1)"

text \<open>Requests and a response for the scenarios.\<close>

definition blank :: Response where
  "blank = \<lparr>locals = None\<rparr>"

definition anonymous :: Request where
  "anonymous =
     \<lparr>Request.url = ''/services/orders'', body = None,
      session = Some \<lparr>Session.user = Some \<lparr>facebookAccessToken = None\<rparr>\<rparr>\<rparr>"

definition returning_bob :: Request where
  "returning_bob =
     \<lparr>Request.url = ''/services/orders'', body = None,
      session = Some \<lparr>Session.user = Some \<lparr>facebookAccessToken = Some ''T2''\<rparr>\<rparr>\<rparr>"

definition login_ann :: Request where
  "login_ann =
     \<lparr>Request.url = ''/services/userAuth/login'',
      body = Some \<lparr>facebookAccessToken = Some ''T1''\<rparr>,
      session = Some \<lparr>Session.user = None\<rparr>\<rparr>"

definition login_odd :: Request where
  "login_odd =
     \<lparr>Request.url = ''/services/userAuth/login'',
      body = Some \<lparr>facebookAccessToken = Some ''T3''\<rparr>,
      session = None\<rparr>"

definition logout_ann :: Request where
  "logout_ann =
     \<lparr>Request.url = ''/services/userAuth/logout'',
      body = Some \<lparr>facebookAccessToken = Some ''T1''\<rparr>,
      session = None\<rparr>"

section \<open>Notions for the properties\<close>

text \<open>An event that is no call of the provider, no call of the store adapter and no reply.\<close>

definition quiet :: "event \<Rightarrow> bool" where
  "quiet ev = (\<not> is_provider_call ev \<and> \<not> is_store_call ev \<and> \<not> is_reply ev)"

text \<open>
  A value lacks a field, as the validation sees it, when asking it for the own property
  does not answer \<^verbatim>\<open>true\<close>: it answers \<^verbatim>\<open>false\<close>, or the question throws, the value being
  \<^verbatim>\<open>null\<close> or hiding the method.
\<close>

definition lacks :: "js_value \<Rightarrow> string \<Rightarrow> bool" where
  "lacks v k = (hasOwnProperty v k \<noteq> Inr True)"

text \<open>The request once \<^verbatim>\<open>req.session.user\<close> is deleted, and the body of the failure.\<close>

definition signed_out :: "Request \<Rightarrow> Request" where
  "signed_out req =
     req\<lparr>session := map_option (\<lambda>s. s\<lparr>Session.user := None\<rparr>) (session req)\<rparr>"

definition login_required :: js_value where
  "login_required = JObj [(''error'', JStr ''LOGIN_REQUIRED'')]"

text \<open>
  \<^verbatim>\<open>res.locals.metisoft.user[k]\<close> and \<^verbatim>\<open>req.session.user.facebookAccessToken\<close> as a later
  handler reads them, \<open>None\<close> when an object on the way is missing.
\<close>

definition identity_field :: "Response \<Rightarrow> string \<Rightarrow> js_value option" where
  "identity_field res k =
     (case locals res of
        None \<Rightarrow> None
      | Some l \<Rightarrow>
          (case metisoft l of
             None \<Rightarrow> None
           | Some m \<Rightarrow> (case Metisoft.user m of None \<Rightarrow> None | Some u \<Rightarrow> map_of u k)))"

definition session_token :: "Request \<Rightarrow> string option" where
  "session_token req =
     (case session req of
        None \<Rightarrow> None
      | Some s \<Rightarrow>
          (case Session.user s of None \<Rightarrow> None | Some c \<Rightarrow> facebookAccessToken c))"

text \<open>
  A record with an identifier: its \<^verbatim>\<open>id\<close> is neither \<^verbatim>\<open>null\<close> nor \<^verbatim>\<open>undefined\<close>. A
  connection returns the identifier when every insert that it accepts answers a row
  with one, which is what \<^verbatim>\<open>RETURNING id\<close> asks of the database.
\<close>

definition has_id :: "js_value \<Rightarrow> bool" where
  "has_id v = (property v ''id'' \<noteq> JNull \<and> property v ''id'' \<noteq> JUndefined)"

definition returning_id :: "'db connection \<Rightarrow> bool" where
  "returning_id c =
     (\<forall>facebookId email fullName db.
        case fst (c (Insert_site_user facebookId email fullName) db) of
          Inl err \<Rightarrow> True
        | Inr row \<Rightarrow> has_id row)"

text \<open>The invariant of the module: what is cached has an identifier.\<close>

definition sound :: "'db world \<Rightarrow> bool" where
  "sound w =
     ((\<forall>t v. mapAccessToken2UserData w t = Some v \<longrightarrow> has_id v) \<and>
      (\<forall>c. dbc w = Some c \<longrightarrow> returning_id c))"

section \<open>What each function leaves untouched\<close>

lemmas resolver_defs =
  getUserDataFromAccessToken_def verifyAndSave_def getUserDataFromFacebook_def
  isValidFacebookUserData_def formatUserDataAsInternal_def get_property_def
  saveUserToDb_def getUserFromDb_def addUserToDb_def squelQueryReturningOne_def
  logged_def options_def cached_def shadowed_def assign_def

lemmas middleware_defs =
  facebookAuthMiddleware_def extractAccessToken_def token_in_def isLogoutRoute_def
  loginRequired_def identify_def remember_def property_key_def save_callback_def

lemmas scenario_defs =
  online_def facebook_def authorization_def config_def loaded_def
  ann_profile_def bob_profile_def odd_profile_def eve_profile_def

lemmas request_defs =
  blank_def anonymous_def returning_bob_def login_ann_def store_down_def

lemma get_property_Inr:
  "get_property v k = Inr i \<Longrightarrow> i = property v k"
  by (auto simp: get_property_def split: if_splits)

lemma property_update:
  "property (JObj (AList.update k v ps)) k' = (if k' = k then v else property (JObj ps) k')"
  by (simp add: update_conv')

lemma truthy_not_null:
  "truthy i \<Longrightarrow> i \<noteq> JNull \<and> i \<noteq> JUndefined"
  by (cases i) auto

lemma squel_frame:
  "squelQueryReturningOne c q w = (a, w') \<Longrightarrow>
     trace w' = trace w @ [Query q] \<and>
     mapAccessToken2UserData w' = mapAccessToken2UserData w \<and>
     prototype w' = prototype w \<and> dbc w' = dbc w"
  by (auto simp: squelQueryReturningOne_def split: prod.splits)

lemma getUserFromDb_frame:
  "getUserFromDb f w = (a, w') \<Longrightarrow>
     (\<exists>es. trace w' = trace w @ es \<and> list_all quiet es) \<and>
     mapAccessToken2UserData w' = mapAccessToken2UserData w \<and>
     prototype w' = prototype w \<and> dbc w' = dbc w"
  by (auto simp: getUserFromDb_def quiet_def dest!: squel_frame split: option.splits)

lemma addUserToDb_frame:
  "addUserToDb u w = (a, w') \<Longrightarrow>
     (\<exists>es. trace w' = trace w @ es \<and> list_all quiet es) \<and>
     mapAccessToken2UserData w' = mapAccessToken2UserData w \<and>
     prototype w' = prototype w \<and> dbc w' = dbc w"
  by (auto simp: addUserToDb_def quiet_def logged_def dest!: squel_frame
      split: option.splits prod.splits sum.splits)

lemma saveUserToDb_frame:
  "saveUserToDb u w = (a, w') \<Longrightarrow>
     (\<exists>es. trace w' = trace w @ SaveUserToDb u # es \<and> list_all quiet es) \<and>
     mapAccessToken2UserData w' = mapAccessToken2UserData w \<and>
     prototype w' = prototype w \<and> dbc w' = dbc w"
  apply (simp add: saveUserToDb_def split: prod.splits sum.splits if_splits)
  apply (auto simp: logged_def dest!: getUserFromDb_frame addUserToDb_frame)
  done

section \<open>The store adapter, case by case\<close>

lemma getUserFromDb_answer:
  assumes "dbc w = Some c"
    and "c (Select_site_user facebookId) (database w) = (a, db)"
  shows "getUserFromDb facebookId (w\<lparr>trace := trace w @ [SaveUserToDb u]\<rparr>) =
           (a, w\<lparr>database := db,
                 trace := trace w @ [SaveUserToDb u, Query (Select_site_user facebookId)]\<rparr>)"
  using assms by (simp add: getUserFromDb_def squelQueryReturningOne_def)

lemma saveUserToDb_found:
  assumes "dbc w = Some c"
    and "c (Select_site_user (property (JObj userData) ''facebookId'')) (database w)
           = (Inr found, db)"
    and "get_property found ''id'' = Inr i" and "truthy i"
  shows "saveUserToDb userData w =
           (Inr found,
            w\<lparr>database := db,
               trace := trace w @
                 [SaveUserToDb userData,
                  Query (Select_site_user (property (JObj userData) ''facebookId''))]\<rparr>)"
  using assms(3,4)
  by (simp add: saveUserToDb_def logged_def getUserFromDb_answer [OF assms(1,2)]
      del: property.simps)

lemma saveUserToDb_inserted:
  assumes "dbc w = Some c"
    and "c (Select_site_user (property (JObj userData) ''facebookId'')) (database w)
           = (Inr found, db)"
    and "get_property found ''id'' = Inr i" and "\<not> truthy i"
    and "c (Insert_site_user (property (JObj userData) ''facebookId'')
              (property (JObj userData) ''email'') (property (JObj userData) ''fullName'')) db
           = (Inr row, db')"
    and "get_property row ''id'' = Inr generated"
  shows "saveUserToDb userData w =
           (Inr (JObj (AList.update ''id'' generated userData)),
            w\<lparr>database := db',
               trace := trace w @
                 [SaveUserToDb userData,
                  Query (Select_site_user (property (JObj userData) ''facebookId'')),
                  Query (Insert_site_user (property (JObj userData) ''facebookId'')
                           (property (JObj userData) ''email'')
                           (property (JObj userData) ''fullName''))]\<rparr>)"
  using assms(1,3-)
  by (simp add: saveUserToDb_def logged_def getUserFromDb_answer [OF assms(1,2)]
      addUserToDb_def squelQueryReturningOne_def del: property.simps)

lemma saveUserToDb_refused:
  assumes "dbc w = Some c"
    and "c (Select_site_user (property (JObj userData) ''facebookId'')) (database w)
           = (Inr found, db)"
    and "get_property found ''id'' = Inr i" and "\<not> truthy i"
    and "c (Insert_site_user (property (JObj userData) ''facebookId'')
              (property (JObj userData) ''email'') (property (JObj userData) ''fullName'')) db
           = (Inl err, db')"
  shows "saveUserToDb userData w =
           (Inr JNull,
            w\<lparr>database := db',
               trace := trace w @
                 [SaveUserToDb userData,
                  Query (Select_site_user (property (JObj userData) ''facebookId'')),
                  Query (Insert_site_user (property (JObj userData) ''facebookId'')
                           (property (JObj userData) ''email'')
                           (property (JObj userData) ''fullName'')),
                  ConsoleError err]\<rparr>)"
  using assms(1,3-)
  by (simp add: saveUserToDb_def logged_def getUserFromDb_answer [OF assms(1,2)]
      addUserToDb_def squelQueryReturningOne_def del: property.simps)

lemma select_is_query: "is_select ev \<Longrightarrow> is_query ev"
  by (cases ev rule: is_select.cases) auto

lemma insert_is_query: "is_insert ev \<Longrightarrow> is_query ev"
  by (cases ev rule: is_insert.cases) auto

lemma saveUserToDb_queries:
  assumes "dbc w = Some c" and "saveUserToDb u w = (a, w')"
  shows "\<exists>es. trace w' = trace w @ es \<and> length (filter is_select es) = 1 \<and>
              length (filter is_insert es) \<le> 1"
  using assms
  by (auto simp: saveUserToDb_def getUserFromDb_def addUserToDb_def
      squelQueryReturningOne_def logged_def split: prod.splits sum.splits if_splits)

lemma save_has_id:
  assumes c: "dbc w = Some c" and r: "returning_id c"
    and s: "saveUserToDb u w = (Inr v, w')" and v: "v \<noteq> JNull"
  shows "has_id v"
proof -
  obtain a db where sel:
    "c (Select_site_user (property (JObj u) ''facebookId'')) (database w) = (a, db)"
    by (cases "c (Select_site_user (property (JObj u) ''facebookId'')) (database w)")
  show ?thesis
  proof (cases a)
    case (Inl err)
    with s show ?thesis
      by (simp add: saveUserToDb_def logged_def getUserFromDb_answer [OF c sel]
          del: property.simps)
  next
    case (Inr found)
    show ?thesis
    proof (cases "get_property found ''id''")
      case (Inl err)
      with s Inr show ?thesis
        by (simp add: saveUserToDb_def logged_def getUserFromDb_answer [OF c sel]
            del: property.simps)
    next
      case i: (Inr i)
      show ?thesis
      proof (cases "truthy i")
        case True
        with saveUserToDb_found [OF c sel [unfolded Inr] i] s have "v = found"
          by simp
        with True i show ?thesis
          using truthy_not_null [of i] by (auto simp: has_id_def dest: get_property_Inr)
      next
        case False
        let ?q = "Insert_site_user (property (JObj u) ''facebookId'')
               (property (JObj u) ''email'') (property (JObj u) ''fullName'')"
        obtain b db' where ins: "c ?q db = (b, db')"
          by (cases "c ?q db")
        from r have row: "case fst (c ?q db) of Inl err \<Rightarrow> True | Inr row \<Rightarrow> has_id row"
          unfolding returning_id_def by blast
        show ?thesis
        proof (cases b)
          case (Inl err)
          with saveUserToDb_refused [OF c sel [unfolded Inr] i False] ins s v
          show ?thesis by simp
        next
          case row': (Inr row)
          with row ins have h: "has_id row" by simp
          then have "get_property row ''id'' = Inr (property row ''id'')"
            by (auto simp: has_id_def get_property_def)
          with saveUserToDb_inserted [OF c sel [unfolded Inr] i False] ins row' s
          have "v = JObj (AList.update ''id'' (property row ''id'') u)"
            by simp
          with h show ?thesis
            by (simp add: has_id_def property_update del: property.simps)
        qed
      qed
    qed
  qed
qed

section \<open>The chain of the resolver, case by case\<close>

lemma valid_not_nullish:
  "isValidFacebookUserData p = Inr True \<Longrightarrow> p \<noteq> JUndefined \<and> p \<noteq> JNull"
  by (cases p) (auto simp: isValidFacebookUserData_def)

lemma lacks_invalid:
  "lacks p ''id'' \<or> lacks p ''name'' \<or> lacks p ''email'' \<Longrightarrow>
     isValidFacebookUserData p \<noteq> Inr True"
  by (auto simp: lacks_def isValidFacebookUserData_def split: sum.splits bool.splits)

lemma format_valid:
  "isValidFacebookUserData p = Inr True \<Longrightarrow>
     formatUserDataAsInternal p =
       Inr [(''facebookId'', property p ''id''), (''fullName'', property p ''name''),
            (''email'', property p ''email'')]"
  using valid_not_nullish [of p]
  by (simp add: formatUserDataAsInternal_def get_property_def)

lemma verifyAndSave_valid:
  "request e (options t) = Inr (Text p) \<Longrightarrow> isValidFacebookUserData p = Inr True \<Longrightarrow>
     verifyAndSave e t w =
       saveUserToDb
         [(''facebookId'', property p ''id''), (''fullName'', property p ''name''),
          (''email'', property p ''email'')]
         (logged [Request (options t)] w)"
  by (simp add: verifyAndSave_def getUserDataFromFacebook_def format_valid)

lemma verifyAndSave_rejected:
  "request e (options t) = Inl err \<Longrightarrow>
     verifyAndSave e t w = (Inl err, logged [Request (options t)] w)"
  by (simp add: verifyAndSave_def getUserDataFromFacebook_def)

lemma verifyAndSave_malformed:
  "request e (options t) = Inr Malformed \<Longrightarrow>
     verifyAndSave e t w = (Inl SyntaxError, logged [Request (options t)] w)"
  by (simp add: verifyAndSave_def getUserDataFromFacebook_def)

lemma verifyAndSave_invalid:
  "request e (options t) = Inr (Text p) \<Longrightarrow> isValidFacebookUserData p \<noteq> Inr True \<Longrightarrow>
     verifyAndSave e t w =
       ((case isValidFacebookUserData p of Inl err \<Rightarrow> Inl err | Inr b \<Rightarrow> Inr JNull),
        logged [Request (options t)] w)"
  by (auto simp: verifyAndSave_def getUserDataFromFacebook_def split: sum.splits bool.splits)

lemma verifyAndSave_frame:
  assumes "verifyAndSave e t w = (a, w')"
  shows "(\<exists>es. trace w' = trace w @ Request (options t) # es \<and>
            list_all (\<lambda>ev. \<not> is_provider_call ev \<and> \<not> is_reply ev) es) \<and>
         mapAccessToken2UserData w' = mapAccessToken2UserData w \<and>
     prototype w' = prototype w \<and> dbc w' = dbc w"
proof (cases "request e (options t)")
  case (Inl err)
  with assms show ?thesis
    by (auto simp: verifyAndSave_rejected logged_def)
next
  case (Inr raw)
  show ?thesis
  proof (cases raw)
    case Malformed
    with Inr assms show ?thesis
      by (auto simp: verifyAndSave_malformed logged_def)
  next
    case (Text p)
    show ?thesis
    proof (cases "isValidFacebookUserData p = Inr True")
      case True
      with Inr Text assms show ?thesis
        by (auto simp: verifyAndSave_valid logged_def quiet_def list_all_iff
            dest!: saveUserToDb_frame)
    next
      case False
      with Inr Text assms show ?thesis
        by (auto simp: verifyAndSave_invalid logged_def)
    qed
  qed
qed

lemma verifyAndSave_shadowed:
  "verifyAndSave e t w = (a, w') \<Longrightarrow> shadowed w' = shadowed w"
  by (auto simp: shadowed_def dest!: verifyAndSave_frame)

lemma resolve_throws:
  "shadowed w \<Longrightarrow> getUserDataFromAccessToken e t w = (Inl TypeError, w)"
  by (simp add: getUserDataFromAccessToken_def cached_def)

lemma resolve_hit:
  "cached w t = Inr True \<Longrightarrow>
     \<exists>userData. mapAccessToken2UserData w t = Some userData \<and>
       getUserDataFromAccessToken e t w = (Inr userData, w)"
  by (auto simp: getUserDataFromAccessToken_def cached_def split: if_splits)

lemma resolve_miss:
  "cached w t = Inr False \<Longrightarrow>
     getUserDataFromAccessToken e t w =
       (case verifyAndSave e t w of
          (Inl err, w') \<Rightarrow> (Inr JNull, logged [ConsoleError err] w')
        | (Inr userData, w') \<Rightarrow>
            if userData \<noteq> JNull
            then (Inr userData, assign t userData w')
            else (Inr JNull, w'))"
  by (simp add: getUserDataFromAccessToken_def)

lemma cached_cases:
  "cached w t = Inl TypeError \<and> shadowed w \<or>
   cached w t = Inr True \<and> \<not> shadowed w \<or>
   cached w t = Inr False \<and> \<not> shadowed w"
  by (simp add: cached_def)

lemma assign_frame:
  "trace (assign t v w) = trace w \<and> dbc (assign t v w) = dbc w \<and>
   database (assign t v w) = database w"
  by (simp add: assign_def)

lemma resolve_frame:
  assumes "getUserDataFromAccessToken e t w = (r, w')"
  shows "(\<exists>es. trace w' = trace w @ es \<and> list_all (\<lambda>ev. \<not> is_reply ev) es) \<and>
         dbc w' = dbc w"
proof -
  consider "cached w t = Inl TypeError" "shadowed w" | "cached w t = Inr True"
    | "cached w t = Inr False"
    using cached_cases [of w t] by blast
  then show ?thesis
  proof cases
    case 1
    with assms show ?thesis
      by (simp add: resolve_throws)
  next
    case 2
    from resolve_hit [OF this, of e] assms show ?thesis
      by auto
  next
    case 3
    obtain a w1 where v: "verifyAndSave e t w = (a, w1)"
      by (cases "verifyAndSave e t w")
    from verifyAndSave_frame [OF v] assms 3 v show ?thesis
      by (auto simp: resolve_miss logged_def list_all_iff assign_frame
          split: sum.splits if_splits)
  qed
qed

text \<open>
  How a resolution changes the own properties of the cache: not at all, or by the one
  entry for its token, which then holds what the store adapter returned for a valid
  profile.
\<close>

lemma resolve_change:
  assumes "getUserDataFromAccessToken e t w = (r, w')"
  shows "dbc w' = dbc w \<and>
         (mapAccessToken2UserData w' = mapAccessToken2UserData w \<or>
          (\<exists>v. r = Inr v \<and> cached w t = Inr False \<and> v \<noteq> JNull \<and>
             mapAccessToken2UserData w' = (mapAccessToken2UserData w)(t \<mapsto> v) \<and>
             (\<exists>profile. request e (options t) = Inr (Text profile) \<and>
                isValidFacebookUserData profile = Inr True \<and>
                fst (saveUserToDb
                       [(''facebookId'', property profile ''id''),
                        (''fullName'', property profile ''name''),
                        (''email'', property profile ''email'')]
                       (logged [Request (options t)] w)) = Inr v)))"
proof -
  consider "cached w t = Inl TypeError" "shadowed w" | "cached w t = Inr True"
    | "cached w t = Inr False"
    using cached_cases [of w t] by blast
  then show ?thesis
  proof cases
    case 1
    with assms show ?thesis
      by (simp add: resolve_throws)
  next
    case 2
    from resolve_hit [OF this, of e] assms show ?thesis
      by auto
  next
    case miss: 3
    obtain a w1 where vs: "verifyAndSave e t w = (a, w1)"
      by (cases "verifyAndSave e t w")
    note frame = verifyAndSave_frame [OF vs]
    show ?thesis
    proof (cases "request e (options t)")
      case (Inl err)
      with assms miss show ?thesis
        by (auto simp: resolve_miss verifyAndSave_rejected logged_def)
    next
      case (Inr raw)
      show ?thesis
      proof (cases raw)
        case Malformed
        with assms miss Inr show ?thesis
          by (auto simp: resolve_miss verifyAndSave_malformed logged_def)
      next
        case (Text p)
        show ?thesis
        proof (cases "isValidFacebookUserData p = Inr True")
          case False
          with assms miss Inr Text show ?thesis
            by (auto simp: resolve_miss verifyAndSave_invalid logged_def split: sum.splits)
        next
          case True
          with Inr Text vs have "saveUserToDb
                      [(''facebookId'', property p ''id''),
                       (''fullName'', property p ''name''),
                       (''email'', property p ''email'')]
                      (logged [Request (options t)] w) = (a, w1)"
            by (simp add: verifyAndSave_valid)
          with assms miss vs frame True Inr Text show ?thesis
            by (auto simp: resolve_miss logged_def assign_def split: sum.splits if_splits)
        qed
      qed
    qed
  qed
qed

text \<open>A resolution that yields \<^verbatim>\<open>null\<close> leaves the cache object as it was.\<close>

lemma resolve_null:
  assumes "getUserDataFromAccessToken e t w = (Inr JNull, w')"
  shows "mapAccessToken2UserData w' = mapAccessToken2UserData w \<and>
         prototype w' = prototype w"
proof -
  consider "cached w t = Inl TypeError" "shadowed w" | "cached w t = Inr True"
    | "cached w t = Inr False"
    using cached_cases [of w t] by blast
  then show ?thesis
  proof cases
    case 1
    with assms show ?thesis
      by (simp add: resolve_throws)
  next
    case 2
    from resolve_hit [OF this, of e] assms show ?thesis
      by auto
  next
    case 3
    obtain a w1 where v: "verifyAndSave e t w = (a, w1)"
      by (cases "verifyAndSave e t w")
    from verifyAndSave_frame [OF v] assms 3 v show ?thesis
      by (auto simp: resolve_miss logged_def split: sum.splits if_splits)
  qed
qed

section \<open>The middleware, step by step\<close>

lemma loginRequired_eq:
  "loginRequired req w = (signed_out req, logged [ResSend login_required, ResEnd] w)"
  by (cases req)
    (auto simp: loginRequired_def signed_out_def login_required_def split: option.splits)

lemma identify_fields:
  "identity_field (identify userData res) ''id'' = Some (property userData ''id'') \<and>
   identity_field (identify userData res) ''facebookId''
     = Some (property userData ''facebookId'') \<and>
   identity_field (identify userData res) ''email'' = Some (property userData ''email'') \<and>
   identity_field (identify userData res) ''fullName''
     = Some (property userData ''fullName'')"
  by (simp add: identity_field_def identify_def Let_def update_conv')

lemma remember_token:
  "session_token (req\<lparr>session := Some (remember t s)\<rparr>) = Some t"
  by (simp add: session_token_def remember_def)

lemma middleware_cache:
  assumes "\<not> isLogoutRoute (Request.url req)" and "extractAccessToken req = Some t"
    and "getUserDataFromAccessToken e t w = (r, w1)"
    and "facebookAuthMiddleware e req res w = (thrown, req', res', w')"
  shows "mapAccessToken2UserData w' = mapAccessToken2UserData w1 \<and> dbc w' = dbc w1"
  using assms
  by (auto simp: facebookAuthMiddleware_def loginRequired_eq logged_def
      split: option.splits if_splits sum.splits)

lemma middleware_change:
  assumes "facebookAuthMiddleware e req res w = (thrown, req', res', w')"
    and "mapAccessToken2UserData w' t = Some v"
    and "mapAccessToken2UserData w t \<noteq> Some v"
  shows "\<not> isLogoutRoute (Request.url req) \<and> extractAccessToken req = Some t \<and>
         fst (getUserDataFromAccessToken e t w) = Inr v \<and> v \<noteq> JNull \<and>
         (\<exists>profile. request e (options t) = Inr (Text profile) \<and>
             isValidFacebookUserData profile = Inr True \<and>
             fst (saveUserToDb
                    [(''facebookId'', property profile ''id''),
                     (''fullName'', property profile ''name''),
                     (''email'', property profile ''email'')]
                    (logged [Request (options t)] w)) = Inr v)"
proof (cases "isLogoutRoute (Request.url req)")
  case True
  with assms show ?thesis
    by (auto simp: facebookAuthMiddleware_def Let_def logged_def
        split: option.splits if_splits)
next
  case False
  show ?thesis
  proof (cases "extractAccessToken req")
    case None
    with False assms show ?thesis
      by (auto simp: facebookAuthMiddleware_def loginRequired_eq logged_def)
  next
    case (Some t')
    obtain r w1 where r: "getUserDataFromAccessToken e t' w = (r, w1)"
      by (cases "getUserDataFromAccessToken e t' w")
    from middleware_cache [OF False Some r assms(1)]
    have m: "mapAccessToken2UserData w' = mapAccessToken2UserData w1"
      by simp
    from resolve_change [OF r] m assms(2,3) have "t' = t \<and> r = Inr v"
      by (auto split: if_splits)
    with resolve_change [OF r] m assms(2,3) False Some r show ?thesis
      by auto
  qed
qed

section \<open>The invariant of the cache\<close>

lemma returning_id_site_user: "returning_id site_user"
  by (auto simp: returning_id_def has_id_def)

lemma resolve_sound:
  assumes "sound w" and "getUserDataFromAccessToken e t w = (r, w')"
  shows "sound w'"
proof -
  from resolve_change [OF assms(2)] have d: "dbc w' = dbc w"
    and m: "mapAccessToken2UserData w' = mapAccessToken2UserData w \<or>
          (\<exists>v. r = Inr v \<and> cached w t = Inr False \<and> v \<noteq> JNull \<and>
             mapAccessToken2UserData w' = (mapAccessToken2UserData w)(t \<mapsto> v) \<and>
             (\<exists>profile. request e (options t) = Inr (Text profile) \<and>
                isValidFacebookUserData profile = Inr True \<and>
                fst (saveUserToDb
                       [(''facebookId'', property profile ''id''),
                        (''fullName'', property profile ''name''),
                        (''email'', property profile ''email'')]
                       (logged [Request (options t)] w)) = Inr v))"
    by blast+
  from m show ?thesis
  proof
    assume "mapAccessToken2UserData w' = mapAccessToken2UserData w"
    with assms(1) d show ?thesis
      by (simp add: sound_def)
  next
    assume "\<exists>v. r = Inr v \<and> cached w t = Inr False \<and> v \<noteq> JNull \<and>
             mapAccessToken2UserData w' = (mapAccessToken2UserData w)(t \<mapsto> v) \<and>
             (\<exists>profile. request e (options t) = Inr (Text profile) \<and>
                isValidFacebookUserData profile = Inr True \<and>
                fst (saveUserToDb
                       [(''facebookId'', property profile ''id''),
                        (''fullName'', property profile ''name''),
                        (''email'', property profile ''email'')]
                       (logged [Request (options t)] w)) = Inr v)"
    then obtain v u where new: "v \<noteq> JNull"
      "mapAccessToken2UserData w' = (mapAccessToken2UserData w)(t \<mapsto> v)"
      and s: "fst (saveUserToDb u (logged [Request (options t)] w)) = Inr v"
      by blast
    then have s': "saveUserToDb u (logged [Request (options t)] w) =
        (Inr v, snd (saveUserToDb u (logged [Request (options t)] w)))"
      by (metis prod.collapse)
    have "dbc (logged [Request (options t)] w) = None \<Longrightarrow> False"
      using s by (simp add: saveUserToDb_def getUserFromDb_def logged_def)
    then obtain c where c: "dbc (logged [Request (options t)] w) = Some c"
      by (cases "dbc (logged [Request (options t)] w)") auto
    then have "dbc w = Some c"
      by (simp add: logged_def)
    with assms(1) have "returning_id c"
      by (simp add: sound_def)
    from save_has_id [OF c this s'] new have "has_id v"
      by simp
    with assms(1) new d show ?thesis
      by (auto simp: sound_def)
  qed
qed

lemma middleware_sound:
  assumes "sound w"
  shows "sound (snd (snd (snd (facebookAuthMiddleware e req res w))))"
proof (cases "isLogoutRoute (Request.url req)")
  case True
  with assms show ?thesis
    by (auto simp: facebookAuthMiddleware_def Let_def sound_def logged_def
        split: option.splits)
next
  case False
  show ?thesis
  proof (cases "extractAccessToken req")
    case None
    with False assms show ?thesis
      by (simp add: facebookAuthMiddleware_def loginRequired_eq sound_def logged_def)
  next
    case (Some t)
    obtain r w1 where r: "getUserDataFromAccessToken e t w = (r, w1)"
      by (cases "getUserDataFromAccessToken e t w")
    obtain thrown req' res' w' where
      m: "facebookAuthMiddleware e req res w = (thrown, req', res', w')"
      by (cases "facebookAuthMiddleware e req res w") auto
    from resolve_sound [OF assms r] have "sound w1" .
    with middleware_cache [OF False Some r m] have "sound w'"
      by (simp add: sound_def)
    with m show ?thesis
      by simp
  qed
qed

lemma run_sound:
  "sound w \<Longrightarrow> \<forall>c. Config c \<in> set calls \<longrightarrow> returning_id c \<Longrightarrow> sound (run calls w)"
proof (induction calls arbitrary: w)
  case Nil
  then show ?case
    by simp
next
  case (Cons call calls)
  have "sound (step call w)"
  proof (cases call)
    case (Config c)
    with Cons.prems show ?thesis
      by (auto simp: sound_def config_def)
  next
    case (Middleware e req res)
    with Cons.prems(1) show ?thesis
      by (simp add: middleware_sound)
  qed
  with Cons show ?case
    by simp
qed

section \<open>The first login of the scenarios\<close>

lemma ann_resolved:
  "getUserDataFromAccessToken online ''T1'' empty_store = (Inr ann, ann_known)"
  by (simp add: resolver_defs scenario_defs empty_store_def ann_known_def ann_def
      ann_fresh_def ann_row_def)

lemma first_login:
  "facebookAuthMiddleware online login_ann blank empty_store =
     (None,
      login_ann\<lparr>session :=
        Some \<lparr>Session.user = Some \<lparr>facebookAccessToken = Some ''T1''\<rparr>\<rparr>\<rparr>,
      identify ann blank, logged [SessionSave, Next] ann_known)"
proof -
  have route: "\<not> isLogoutRoute (Request.url login_ann)"
    by (simp add: request_defs isLogoutRoute_def)
  have token: "extractAccessToken login_ann = Some ''T1''"
    by (simp add: request_defs extractAccessToken_def token_in_def)
  have nonnull: "truthy ann"
    by (simp add: ann_def)
  have sess: "session login_ann = Some \<lparr>Session.user = None\<rparr>"
    by (simp add: login_ann_def)
  have save: "save_error online = None" "\<not> save_at_once online"
    by (simp_all add: online_def)
  show ?thesis
    by (simp add: facebookAuthMiddleware_def Let_def route token ann_resolved nonnull sess
        save remember_def save_callback_def)
qed

section \<open>Memoization of the resolution\<close>

text \<open>
  For a token other than \<^verbatim>\<open>__proto__\<close> and \<^verbatim>\<open>hasOwnProperty\<close> the cache memoizes. When
  line 47 finds the token, the resolution is fulfilled with the cached record and the
  world is left as it was. When line 47 does not find it, the resolution costs exactly
  one call of the provider and, when the profile is valid, exactly one call of the
  store's lookup-or-create, which on a configured module sends exactly one select and at
  most one insert. After a resolution that yielded a record, resolving the same token
  again, whatever the provider would now answer, yields the same record and leaves the
  world as it is.
\<close>

lemma memoization_of_other_tokens:
  assumes "getUserDataFromAccessToken e accessToken w = (Inr userData, w')"
  shows "(cached w accessToken = Inr True \<longrightarrow>
            mapAccessToken2UserData w accessToken = Some userData \<and> w' = w) \<and>
         (cached w accessToken = Inr False \<longrightarrow>
            trace w' = trace w @ new_events w w' \<and>
            length (filter is_provider_call (new_events w w')) = 1 \<and>
            (request e (options accessToken) = Inr (Text profile) \<and>
             isValidFacebookUserData profile = Inr True \<longrightarrow>
               length (filter is_store_call (new_events w w')) = 1 \<and>
               (dbc w \<noteq> None \<longrightarrow>
                  length (filter is_select (new_events w w')) = 1 \<and>
                  length (filter is_insert (new_events w w')) \<le> 1))) \<and>
         (userData \<noteq> JNull \<and> accessToken \<noteq> ''__proto__'' \<and>
          accessToken \<noteq> ''hasOwnProperty'' \<longrightarrow>
            getUserDataFromAccessToken e' accessToken w' = (Inr userData, w'))"
proof (intro conjI impI)
  assume "cached w accessToken = Inr True"
  from resolve_hit [OF this, of e] assms
  show "mapAccessToken2UserData w accessToken = Some userData" "w' = w"
    by auto
next
  assume miss: "cached w accessToken = Inr False"
  obtain a w1 where v: "verifyAndSave e accessToken w = (a, w1)"
    by (cases "verifyAndSave e accessToken w")
  from verifyAndSave_frame [OF v] obtain es where
    es: "trace w1 = trace w @ Request (options accessToken) # es"
      "list_all (\<lambda>ev. \<not> is_provider_call ev \<and> \<not> is_reply ev) es"
    by blast
  from assms miss v obtain es' where
    es': "trace w' = trace w1 @ es'"
      "list_all (\<lambda>ev. \<not> is_provider_call ev \<and> \<not> is_store_call ev \<and> \<not> is_query ev) es'"
    by (auto simp: resolve_miss logged_def assign_frame split: sum.splits if_splits)
  from es es' have new: "new_events w w' = Request (options accessToken) # es @ es'"
    by (simp add: new_events_def)
  from es es' show "trace w' = trace w @ new_events w w'"
    by (simp add: new)
  have "filter is_provider_call (es @ es') = []"
    using es(2) es'(2) by (auto simp: list_all_iff filter_empty_conv)
  then show "length (filter is_provider_call (new_events w w')) = 1"
    by (simp add: new)
  {
    assume valid: "request e (options accessToken) = Inr (Text profile) \<and>
      isValidFacebookUserData profile = Inr True"
    then have save: "saveUserToDb
         [(''facebookId'', property profile ''id''), (''fullName'', property profile ''name''),
          (''email'', property profile ''email'')]
         (logged [Request (options accessToken)] w) = (a, w1)"
      using v by (simp add: verifyAndSave_valid)
    then obtain u es2 where
      "trace w1 = trace (logged [Request (options accessToken)] w) @ SaveUserToDb u # es2"
      "list_all quiet es2"
      by (auto dest!: saveUserToDb_frame)
    with es have "es = SaveUserToDb u # es2"
      by (simp add: logged_def)
    with \<open>list_all quiet es2\<close> es'(2)
    have "filter is_store_call (es @ es') = [SaveUserToDb u]"
      by (auto simp: list_all_iff filter_empty_conv quiet_def)
    then show "length (filter is_store_call (new_events w w')) = 1"
      by (simp add: new)
    {
      assume "dbc w \<noteq> None"
      then obtain c where "dbc (logged [Request (options accessToken)] w) = Some c"
        by (auto simp: logged_def)
      from saveUserToDb_queries [OF this save] es(1) have
        q: "length (filter is_select es) = 1" "length (filter is_insert es) \<le> 1"
        by (auto simp: logged_def)
      have "filter is_select es' = []" "filter is_insert es' = []"
        using es'(2)
        by (auto simp: list_all_iff filter_empty_conv dest: select_is_query insert_is_query)
      with q show "length (filter is_select (new_events w w')) = 1"
        "length (filter is_insert (new_events w w')) \<le> 1"
        by (simp_all add: new)
    }
  }
next
  assume again: "userData \<noteq> JNull \<and> accessToken \<noteq> ''__proto__'' \<and>
          accessToken \<noteq> ''hasOwnProperty''"
  consider "cached w accessToken = Inl TypeError" "shadowed w"
    | "cached w accessToken = Inr True" | "cached w accessToken = Inr False" "\<not> shadowed w"
    using cached_cases [of w accessToken] by auto
  then have "cached w' accessToken = Inr True \<and>
      mapAccessToken2UserData w' accessToken = Some userData"
  proof cases
    case 1
    with assms show ?thesis
      by (simp add: resolve_throws)
  next
    case 2
    from resolve_hit [OF this, of e] assms 2 show ?thesis
      by auto
  next
    case 3
    obtain a w1 where v: "verifyAndSave e accessToken w = (a, w1)"
      by (cases "verifyAndSave e accessToken w")
    from verifyAndSave_shadowed [OF v] 3 have "\<not> shadowed w1"
      by simp
    with assms 3 v again show ?thesis
      by (auto simp: resolve_miss cached_def shadowed_def assign_def
          split: sum.splits if_splits)
  qed
  then show "getUserDataFromAccessToken e' accessToken w' = (Inr userData, w')"
    by (simp add: getUserDataFromAccessToken_def)
qed

text \<open>The first two scenarios of section 8: \<^verbatim>\<open>T1\<close> not yet seen, then \<^verbatim>\<open>T1\<close> cached.\<close>

lemma memoization_of_T1:
  "getUserDataFromAccessToken online ''T1'' empty_store = (Inr ann, ann_known) \<and>
   cached empty_store ''T1'' = Inr False \<and>
   length (filter is_provider_call (new_events empty_store ann_known)) = 1 \<and>
   length (filter is_store_call (new_events empty_store ann_known)) = 1 \<and>
   length (filter is_select (new_events empty_store ann_known)) = 1 \<and>
   length (filter is_insert (new_events empty_store ann_known)) = 1 \<and>
   cached ann_known ''T1'' = Inr True \<and>
   getUserDataFromAccessToken online ''T1'' ann_known = (Inr ann, ann_known)"
proof -
  have miss: "cached empty_store ''T1'' = Inr False"
    by (simp add: empty_store_def scenario_defs cached_def shadowed_def)
  have valid: "request online (options ''T1'') = Inr (Text ann_profile) \<and>
      isValidFacebookUserData ann_profile = Inr True"
    by (simp add: scenario_defs options_def isValidFacebookUserData_def)
  have hit: "cached ann_known ''T1'' = Inr True"
    by (simp add: ann_known_def cached_def shadowed_def ann_def)
  have configured: "dbc empty_store \<noteq> None"
    by (simp add: empty_store_def config_def)
  have inserted: "length (filter is_insert (new_events empty_store ann_known)) = 1"
    by (simp add: new_events_def empty_store_def ann_known_def scenario_defs)
  have "ann \<noteq> JNull"
    by (simp add: ann_def)
  with memoization_of_other_tokens [OF ann_resolved, of ann_profile online] miss valid hit
    configured
  show ?thesis
    using ann_resolved inserted by simp
qed

text \<open>
  Claim C1 says that a second resolution of the same token, after a first that
  succeeded, calls neither the provider nor the store, and says so of every token. The
  code does not memoize the token \<^verbatim>\<open>__proto__\<close>. Its first resolution succeeds with Ann's
  record, which line 67 hands to the setter of \<^verbatim>\<open>__proto__\<close>: the record becomes the
  prototype of the cache object and no own property is made. Line 47 does not find the
  token the second time either, and the second resolution calls the provider and the
  store's lookup-or-create again.
\<close>

theorem memoization_lost_under_proto:
  "cached empty_store ''__proto__'' = Inr False \<and>
   getUserDataFromAccessToken online ''__proto__'' empty_store = (Inr ann, ann_lost) \<and>
   mapAccessToken2UserData ann_lost ''__proto__'' = None \<and>
   cached ann_lost ''__proto__'' = Inr False \<and>
   fst (getUserDataFromAccessToken online ''__proto__'' ann_lost) = Inr (JObj ann_row) \<and>
   new_events ann_lost (snd (getUserDataFromAccessToken online ''__proto__'' ann_lost)) =
     [Request (options ''__proto__''), SaveUserToDb ann_fresh,
      Query (Select_site_user (JStr ''F1''))]"
  by (simp add: resolver_defs scenario_defs empty_store_def ann_lost_def ann_def
      ann_fresh_def ann_row_def new_events_def)

text \<open>
  The token \<^verbatim>\<open>hasOwnProperty\<close> is memoized, and then hides the method that line 47
  calls: from there on every resolution throws before it begins, and off the logout
  route the exception leaves the middleware.
\<close>

lemma hasOwnProperty_cached:
  assumes "cached w ''hasOwnProperty'' = Inr False"
    and "getUserDataFromAccessToken e ''hasOwnProperty'' w = (Inr userData, w')"
    and "userData \<noteq> JNull"
  shows "shadowed w'"
proof -
  obtain a w1 where v: "verifyAndSave e ''hasOwnProperty'' w = (a, w1)"
    by (cases "verifyAndSave e ''hasOwnProperty'' w")
  with assms show ?thesis
    by (auto simp: resolve_miss shadowed_def assign_def split: sum.splits if_splits)
qed

lemma shadowed_cache_throws:
  assumes "shadowed w"
  shows "getUserDataFromAccessToken e accessToken w = (Inl TypeError, w) \<and>
         (\<not> isLogoutRoute (Request.url req) \<and> extractAccessToken req = Some accessToken \<longrightarrow>
            facebookAuthMiddleware e req res w = (Some TypeError, req, res, w))"
  using assms by (simp add: resolve_throws facebookAuthMiddleware_def)

section \<open>The middleware and its caller\<close>

text \<open>
  Claim C2 says that no call of the middleware throws, whatever of body, session and
  token the request has. The code throws on the logout route when the request has no
  session: the entry for the token is deleted, then \<^verbatim>\<open>req.session.destroy()\<close> is a call
  on \<^verbatim>\<open>undefined\<close>. The \<^verbatim>\<open>TypeError\<close> reaches the caller, and \<^verbatim>\<open>next\<close> is not called: the
  trace is as it was.
\<close>

theorem logout_without_session_throws:
  "facebookAuthMiddleware e
     \<lparr>Request.url = ''/services/userAuth/logout'', body = b, session = None\<rparr> res w =
     (Some TypeError,
      \<lparr>Request.url = ''/services/userAuth/logout'', body = b, session = None\<rparr>, res,
      w\<lparr>mapAccessToken2UserData :=
          (mapAccessToken2UserData w)(property_key (token_in b) := None)\<rparr>)"
  by (simp add: facebookAuthMiddleware_def isLogoutRoute_def extractAccessToken_def
      split: option.splits)

text \<open>
  When the middleware throws, the token of the request being a string or missing,
  in any state of the module: on the logout route, when the request has no session;
  off it, when the request carries a token and a property of the cache object hides
  the method that line 47 calls.
\<close>

lemma middleware_throws:
  "fst (facebookAuthMiddleware e req res w) =
     (if isLogoutRoute (Request.url req)
      then (if session req = None then Some TypeError else None)
      else (if extractAccessToken req \<noteq> None \<and> shadowed w then Some TypeError else None))"
proof (cases "isLogoutRoute (Request.url req)")
  case True
  then show ?thesis
    by (simp add: facebookAuthMiddleware_def Let_def split: option.splits)
next
  case False
  show ?thesis
  proof (cases "extractAccessToken req")
    case None
    with False show ?thesis
      by (simp add: facebookAuthMiddleware_def split: prod.splits)
  next
    case (Some t)
    show ?thesis
    proof (cases "shadowed w")
      case True
      with False Some show ?thesis
        by (simp add: facebookAuthMiddleware_def resolve_throws)
    next
      case unshadowed: False
      obtain r w1 where r: "getUserDataFromAccessToken e t w = (r, w1)"
        by (cases "getUserDataFromAccessToken e t w")
      with unshadowed have "\<exists>userData. r = Inr userData"
        by (auto simp: getUserDataFromAccessToken_def cached_def
            split: sum.splits if_splits prod.splits bool.splits)
      then obtain userData where "r = Inr userData"
        by blast
      with False Some unshadowed r show ?thesis
        by (simp add: facebookAuthMiddleware_def split: option.splits prod.splits)
    qed
  qed
qed

section \<open>Profiles that are not valid\<close>

text \<open>
  Claim C3. When the provider answers a token that line 47 does not find in the cache
  with a text that is not JSON, or with a profile that lacks one of \<^verbatim>\<open>id\<close>, \<^verbatim>\<open>name\<close> and
  \<^verbatim>\<open>email\<close>, the resolution yields \<^verbatim>\<open>null\<close>, the cache object is what it was, and the
  store is not called: no entry into the lookup-or-create, no statement sent, the
  database unchanged.
\<close>

theorem invalid_payload_rejected:
  assumes miss: "cached w accessToken = Inr False"
    and answer: "request e (options accessToken) = Inr raw"
    and invalid: "JSON_parse raw = Inl err \<or>
       (JSON_parse raw = Inr profile \<and>
        (lacks profile ''id'' \<or> lacks profile ''name'' \<or> lacks profile ''email''))"
    and result: "getUserDataFromAccessToken e accessToken w = (outcome, w')"
  shows "outcome = Inr JNull \<and>
         mapAccessToken2UserData w' = mapAccessToken2UserData w \<and>
         prototype w' = prototype w \<and>
         trace w' = trace w @ new_events w w' \<and>
         filter is_store_call (new_events w w') = [] \<and>
         filter is_query (new_events w w') = [] \<and>
         database w' = database w"
proof (cases raw)
  case Malformed
  with miss answer result show ?thesis
    by (auto simp: resolve_miss verifyAndSave_malformed logged_def new_events_def)
next
  case (Text p)
  with invalid have "p = profile" and
    "lacks profile ''id'' \<or> lacks profile ''name'' \<or> lacks profile ''email''"
    by auto
  then have "isValidFacebookUserData p \<noteq> Inr True"
    using lacks_invalid by blast
  with miss answer result Text show ?thesis
    by (auto simp: resolve_miss verifyAndSave_invalid logged_def new_events_def
        split: sum.splits)
qed

text \<open>The third scenario of section 8, Bob without email, and an answer that is not JSON.\<close>

theorem invalid_payload_rejected_witness:
  "getUserDataFromAccessToken online ''T2'' empty_store =
     (Inr JNull, logged [Request (options ''T2'')] empty_store) \<and>
   lacks bob_profile ''email'' \<and>
   mapAccessToken2UserData (logged [Request (options ''T2'')] empty_store) ''T2'' = None \<and>
   getUserDataFromAccessToken online ''T4'' empty_store =
     (Inr JNull, logged [Request (options ''T4''), ConsoleError SyntaxError] empty_store)"
proof -
  have miss: "cached empty_store t = Inr False" for t
    by (simp add: empty_store_def scenario_defs cached_def shadowed_def)
  have none: "mapAccessToken2UserData empty_store t = None" for t
    by (simp add: empty_store_def scenario_defs)
  have a2: "request online (options ''T2'') = Inr (Text bob_profile)"
    by (simp add: online_def facebook_def authorization_def options_def)
  have l2: "lacks bob_profile ''email''"
    by (simp add: lacks_def bob_profile_def)
  have r2: "getUserDataFromAccessToken online ''T2'' empty_store =
     (Inr JNull, logged [Request (options ''T2'')] empty_store)"
    by (simp add: resolver_defs scenario_defs empty_store_def)
  have a4: "request online (options ''T4'') = Inr Malformed"
    by (simp add: online_def facebook_def authorization_def options_def)
  have r4: "getUserDataFromAccessToken online ''T4'' empty_store =
     (Inr JNull, logged [Request (options ''T4''), ConsoleError SyntaxError] empty_store)"
    by (simp add: resolver_defs scenario_defs empty_store_def)
  from invalid_payload_rejected [OF miss a2 _ r2, of SyntaxError bob_profile] l2
    invalid_payload_rejected [OF miss a4 _ r4, of SyntaxError JNull]
  show ?thesis
    using r2 r4 by (simp add: none)
qed

section \<open>The lookup-or-create of the store\<close>

text \<open>
  What \<^verbatim>\<open>__saveUserToDb\<close> does with the answer of the lookup. The store is behind the
  connection, and the code decides with \<^verbatim>\<open>!user.id\<close> (line 162). When what the lookup
  answers is \<^verbatim>\<open>null\<close> or \<^verbatim>\<open>undefined\<close>, reading \<^verbatim>\<open>user.id\<close> throws: the promise is rejected and
  no insert is sent. When the answer has a truthy \<^verbatim>\<open>id\<close>, no insert is sent and the answer
  is returned as it is, whatever email and name \<^verbatim>\<open>userData\<close> carries. When the answer has
  no \<^verbatim>\<open>id\<close> or a falsy one, exactly one insert is sent, with the \<^verbatim>\<open>facebookId\<close>, \<^verbatim>\<open>email\<close> and
  \<^verbatim>\<open>fullName\<close> of \<^verbatim>\<open>userData\<close>, and \<^verbatim>\<open>userData\<close> is returned with the \<^verbatim>\<open>id\<close> of the row that the
  insert answered; when the insert is rejected, the error is logged and \<^verbatim>\<open>null\<close> is
  returned.
\<close>

lemma saveUserToDb_nullish:
  assumes "dbc w = Some c"
    and "c (Select_site_user (property (JObj userData) ''facebookId'')) (database w)
           = (Inr found, db)"
    and "get_property found ''id'' = Inl err"
  shows "saveUserToDb userData w =
           (Inl err,
            w\<lparr>database := db,
               trace := trace w @
                 [SaveUserToDb userData,
                  Query (Select_site_user (property (JObj userData) ''facebookId''))]\<rparr>)"
  using assms(3)
  by (simp add: saveUserToDb_def logged_def getUserFromDb_answer [OF assms(1,2)]
      del: property.simps)

lemma saveUserToDb_by_id:
  assumes configured: "dbc w = Some c"
    and lookup: "c (Select_site_user (property (JObj userData) ''facebookId'')) (database w)
                   = (Inr found, db)"
    and found_id: "get_property found ''id'' = Inr i"
  shows "(truthy i \<longrightarrow>
            saveUserToDb userData w =
              (Inr found,
               w\<lparr>database := db,
                  trace := trace w @
                    [SaveUserToDb userData,
                     Query (Select_site_user (property (JObj userData) ''facebookId''))]\<rparr>)) \<and>
         (\<not> truthy i \<and>
          c (Insert_site_user (property (JObj userData) ''facebookId'')
               (property (JObj userData) ''email'') (property (JObj userData) ''fullName'')) db
            = (Inr row, db') \<and>
          get_property row ''id'' = Inr generated \<longrightarrow>
            saveUserToDb userData w =
              (Inr (JObj (AList.update ''id'' generated userData)),
               w\<lparr>database := db',
                  trace := trace w @
                    [SaveUserToDb userData,
                     Query (Select_site_user (property (JObj userData) ''facebookId'')),
                     Query (Insert_site_user (property (JObj userData) ''facebookId'')
                              (property (JObj userData) ''email'')
                              (property (JObj userData) ''fullName''))]\<rparr>) \<and>
            property (JObj (AList.update ''id'' generated userData)) ''id'' = generated) \<and>
         (\<not> truthy i \<and>
          c (Insert_site_user (property (JObj userData) ''facebookId'')
               (property (JObj userData) ''email'') (property (JObj userData) ''fullName'')) db
            = (Inl err, db') \<longrightarrow>
            saveUserToDb userData w =
              (Inr JNull,
               w\<lparr>database := db',
                  trace := trace w @
                    [SaveUserToDb userData,
                     Query (Select_site_user (property (JObj userData) ''facebookId'')),
                     Query (Insert_site_user (property (JObj userData) ''facebookId'')
                              (property (JObj userData) ''email'')
                              (property (JObj userData) ''fullName'')),
                     ConsoleError err]\<rparr>))"
proof (intro conjI impI)
  assume "truthy i"
  with saveUserToDb_found [OF configured lookup found_id]
  show "saveUserToDb userData w =
          (Inr found,
           w\<lparr>database := db,
              trace := trace w @
                [SaveUserToDb userData,
                 Query (Select_site_user (property (JObj userData) ''facebookId''))]\<rparr>)"
    by blast
next
  assume "\<not> truthy i \<and>
          c (Insert_site_user (property (JObj userData) ''facebookId'')
               (property (JObj userData) ''email'') (property (JObj userData) ''fullName'')) db
            = (Inr row, db') \<and>
          get_property row ''id'' = Inr generated"
  with saveUserToDb_inserted [OF configured lookup found_id]
  show "saveUserToDb userData w =
          (Inr (JObj (AList.update ''id'' generated userData)),
           w\<lparr>database := db',
              trace := trace w @
                [SaveUserToDb userData,
                 Query (Select_site_user (property (JObj userData) ''facebookId'')),
                 Query (Insert_site_user (property (JObj userData) ''facebookId'')
                          (property (JObj userData) ''email'')
                          (property (JObj userData) ''fullName''))]\<rparr>)"
    by blast
  show "property (JObj (AList.update ''id'' generated userData)) ''id'' = generated"
    by (simp add: property_update del: property.simps)
next
  assume "\<not> truthy i \<and>
          c (Insert_site_user (property (JObj userData) ''facebookId'')
               (property (JObj userData) ''email'') (property (JObj userData) ''fullName'')) db
            = (Inl err, db')"
  with saveUserToDb_refused [OF configured lookup found_id]
  show "saveUserToDb userData w =
          (Inr JNull,
           w\<lparr>database := db',
              trace := trace w @
                [SaveUserToDb userData,
                 Query (Select_site_user (property (JObj userData) ''facebookId'')),
                 Query (Insert_site_user (property (JObj userData) ''facebookId'')
                          (property (JObj userData) ''email'')
                          (property (JObj userData) ''fullName'')),
                 ConsoleError err]\<rparr>)"
    by blast
qed

text \<open>
  Ann is in the store with the identifier 7 and her profile has changed: her stored row
  comes back. Ann is not in the store: one insert, and her record has the identifier 7.
  The store refuses the insert: \<^verbatim>\<open>null\<close>, and the error is logged.
\<close>

lemma saveUserToDb_of_ann:
  "saveUserToDb ann_changed ann_known =
     (Inr (JObj ann_row),
      ann_known\<lparr>trace := trace ann_known @
         [SaveUserToDb ann_changed, Query (Select_site_user (JStr ''F1''))]\<rparr>) \<and>
   property (JObj ann_row) ''email'' = JStr ''a@x.com'' \<and>
   property (JObj ann_changed) ''email'' = JStr ''b@x.com'' \<and>
   saveUserToDb ann_fresh empty_store =
     (Inr ann,
      empty_store\<lparr>database := ([ann_row], 8),
         trace := [SaveUserToDb ann_fresh, Query (Select_site_user (JStr ''F1'')),
                   Query (Insert_site_user (JStr ''F1'') (JStr ''a@x.com'') (JStr ''Ann''))]\<rparr>) \<and>
   property ann ''id'' = JNum 7 \<and>
   saveUserToDb ann_fresh (config read_only (loaded ([], 7))) =
     (Inr JNull,
      (config read_only (loaded ([], 7)))\<lparr>trace :=
         [SaveUserToDb ann_fresh, Query (Select_site_user (JStr ''F1'')),
          Query (Insert_site_user (JStr ''F1'') (JStr ''a@x.com'') (JStr ''Ann'')),
          ConsoleError (Error ''insert refused'')]\<rparr>)"
proof -
  have known: "dbc ann_known = Some site_user"
    "site_user (Select_site_user (property (JObj ann_changed) ''facebookId''))
       (database ann_known) = (Inr (JObj ann_row), database ann_known)"
    "get_property (JObj ann_row) ''id'' = Inr (JNum 7)" "truthy (JNum 7)"
    by (simp_all add: ann_known_def ann_changed_def ann_row_def get_property_def)
  have empty: "dbc empty_store = Some site_user"
    "site_user (Select_site_user (property (JObj ann_fresh) ''facebookId''))
       (database empty_store) = (Inr (JObj []), ([], 7))"
    "get_property (JObj []) ''id'' = Inr JUndefined" "\<not> truthy JUndefined"
    "site_user (Insert_site_user (property (JObj ann_fresh) ''facebookId'')
         (property (JObj ann_fresh) ''email'') (property (JObj ann_fresh) ''fullName''))
       ([], 7) = (Inr (JObj [(''id'', JNum 7)]), ([ann_row], 8))"
    "get_property (JObj [(''id'', JNum 7)]) ''id'' = Inr (JNum 7)"
    by (simp_all add: empty_store_def scenario_defs ann_fresh_def ann_row_def get_property_def)
  have refusing: "dbc (config read_only (loaded ([], 7))) = Some read_only"
    "read_only (Select_site_user (property (JObj ann_fresh) ''facebookId''))
       (database (config read_only (loaded ([], 7)))) = (Inr (JObj []), ([], 7))"
    "read_only (Insert_site_user (property (JObj ann_fresh) ''facebookId'')
         (property (JObj ann_fresh) ''email'') (property (JObj ann_fresh) ''fullName''))
       ([], 7) = (Inl (Error ''insert refused''), ([], 7))"
    by (simp_all add: scenario_defs ann_fresh_def)
  from saveUserToDb_by_id [OF known(1,2,3)] known(4)
  have first: "saveUserToDb ann_changed ann_known =
     (Inr (JObj ann_row),
      ann_known\<lparr>trace := trace ann_known @
         [SaveUserToDb ann_changed, Query (Select_site_user (JStr ''F1''))]\<rparr>)"
    by (simp add: ann_changed_def)
  from saveUserToDb_by_id [OF empty(1,2,3),
      where row = "JObj [(''id'', JNum 7)]" and db' = "([ann_row], 8)"
        and generated = "JNum 7"] empty(4,5,6)
  have second: "saveUserToDb ann_fresh empty_store =
     (Inr ann,
      empty_store\<lparr>database := ([ann_row], 8),
         trace := [SaveUserToDb ann_fresh, Query (Select_site_user (JStr ''F1'')),
                   Query (Insert_site_user (JStr ''F1'') (JStr ''a@x.com'') (JStr ''Ann''))]\<rparr>)"
    by (simp add: ann_fresh_def ann_def empty_store_def scenario_defs)
  from saveUserToDb_by_id [OF refusing(1,2) empty(3),
      where err = "Error ''insert refused''" and db' = "([], 7)"] empty(4) refusing(3)
  have third: "saveUserToDb ann_fresh (config read_only (loaded ([], 7))) =
     (Inr JNull,
      (config read_only (loaded ([], 7)))\<lparr>trace :=
         [SaveUserToDb ann_fresh, Query (Select_site_user (JStr ''F1'')),
          Query (Insert_site_user (JStr ''F1'') (JStr ''a@x.com'') (JStr ''Ann'')),
          ConsoleError (Error ''insert refused'')]\<rparr>)"
    by (simp add: ann_fresh_def scenario_defs)
  from first second third show ?thesis
    by (simp add: ann_row_def ann_changed_def ann_def)
qed

text \<open>
  Claim C4 says that when a record with the \<^verbatim>\<open>facebookId\<close> of \<^verbatim>\<open>userData\<close> exists in the
  store, no insert is performed and the stored record is returned as it is; the comment
  of lines 149-151 says the same: an entry is added if the user does not have one. The
  code does not look at whether the lookup found a record but at \<^verbatim>\<open>!user.id\<close> (line 162).
  The table holds a row for \<^verbatim>\<open>F1\<close> with the identifier 0 and the lookup answers it; the
  code takes it for no record, sends an insert, and returns a second record for \<^verbatim>\<open>F1\<close>,
  with the identifier 1 and the fresh email and name.
\<close>

theorem getOrCreate_duplicates_record:
  "site_user (Select_site_user (JStr ''F1'')) zero_table =
     (Inr (JObj [(''id'', JNum 0), (''facebookId'', JStr ''F1''),
                 (''email'', JStr ''old@x.com''), (''fullName'', JStr ''Ann Old'')]),
      zero_table) \<and>
   fst (saveUserToDb ann_fresh (config site_user (loaded zero_table))) =
     Inr (JObj [(''facebookId'', JStr ''F1''), (''fullName'', JStr ''Ann''),
                (''email'', JStr ''a@x.com''), (''id'', JNum 1)]) \<and>
   filter is_insert (trace (snd (saveUserToDb ann_fresh (config site_user (loaded zero_table)))))
     = [Query (Insert_site_user (JStr ''F1'') (JStr ''a@x.com'') (JStr ''Ann''))] \<and>
   length (fst (database (snd (saveUserToDb ann_fresh (config site_user (loaded zero_table))))))
     = 2"
  by (simp add: zero_table_def ann_fresh_def resolver_defs scenario_defs)

section \<open>What the cache holds\<close>

text \<open>
  Claim C5, amended. Let every connection that \<^verbatim>\<open>config\<close> installs return the identifier
  of the rows it inserts. Then after any sequence of calls of \<^verbatim>\<open>config\<close> and of the
  middleware on the freshly loaded module, every record in the cache has an \<^verbatim>\<open>id\<close> that
  is neither \<^verbatim>\<open>null\<close> nor \<^verbatim>\<open>undefined\<close>. A call of the middleware maps a token to a record
  it was not mapped to before only off the logout route, for the token of the request,
  when the provider sent a valid profile for it and the record is what the store
  adapter returned for that profile, not \<^verbatim>\<open>null\<close>. A resolution that yields \<^verbatim>\<open>null\<close>
  leaves the cache object as it was, its prototype too. Nothing is said of
  \<^verbatim>\<open>facebookId\<close>: it is whatever the profile or the stored row holds.
\<close>

theorem cache_invariant:
  assumes "\<forall>c. Config c \<in> set calls \<longrightarrow> returning_id c"
  shows "(\<forall>token entry.
            mapAccessToken2UserData (run calls (loaded db)) token = Some entry \<longrightarrow>
              property entry ''id'' \<noteq> JNull \<and> property entry ''id'' \<noteq> JUndefined) \<and>
         (facebookAuthMiddleware e req res w = (thrown, req', res', w') \<and>
          mapAccessToken2UserData w' t = Some v \<and> mapAccessToken2UserData w t \<noteq> Some v \<longrightarrow>
            \<not> isLogoutRoute (Request.url req) \<and> extractAccessToken req = Some t \<and>
            fst (getUserDataFromAccessToken e t w) = Inr v \<and> v \<noteq> JNull \<and>
            (\<exists>profile. request e (options t) = Inr (Text profile) \<and>
               isValidFacebookUserData profile = Inr True \<and>
               fst (saveUserToDb
                      [(''facebookId'', property profile ''id''),
                       (''fullName'', property profile ''name''),
                       (''email'', property profile ''email'')]
                      (logged [Request (options t)] w)) = Inr v)) \<and>
         (getUserDataFromAccessToken e t w = (Inr JNull, w1) \<longrightarrow>
            mapAccessToken2UserData w1 = mapAccessToken2UserData w \<and>
            prototype w1 = prototype w)"
proof (intro conjI allI impI)
  fix token entry
  assume entry: "mapAccessToken2UserData (run calls (loaded db)) token = Some entry"
  have "sound (loaded db)"
    by (simp add: sound_def loaded_def)
  from run_sound [OF this assms] entry have "has_id entry"
    by (simp add: sound_def)
  then show "property entry ''id'' \<noteq> JNull" "property entry ''id'' \<noteq> JUndefined"
    by (simp_all add: has_id_def)
next
  assume new: "facebookAuthMiddleware e req res w = (thrown, req', res', w') \<and>
          mapAccessToken2UserData w' t = Some v \<and> mapAccessToken2UserData w t \<noteq> Some v"
  then have c: "\<not> isLogoutRoute (Request.url req) \<and> extractAccessToken req = Some t \<and>
         fst (getUserDataFromAccessToken e t w) = Inr v \<and> v \<noteq> JNull \<and>
         (\<exists>profile. request e (options t) = Inr (Text profile) \<and>
             isValidFacebookUserData profile = Inr True \<and>
             fst (saveUserToDb
                    [(''facebookId'', property profile ''id''),
                     (''fullName'', property profile ''name''),
                     (''email'', property profile ''email'')]
                    (logged [Request (options t)] w)) = Inr v)"
    using middleware_change by blast
  then show "\<not> isLogoutRoute (Request.url req)" "extractAccessToken req = Some t"
    "v \<noteq> JNull" "fst (getUserDataFromAccessToken e t w) = Inr v"
    by blast+
  from c show "\<exists>profile. request e (options t) = Inr (Text profile) \<and>
             isValidFacebookUserData profile = Inr True \<and>
             fst (saveUserToDb
                    [(''facebookId'', property profile ''id''),
                     (''fullName'', property profile ''name''),
                     (''email'', property profile ''email'')]
                    (logged [Request (options t)] w)) = Inr v"
    by blast
next
  assume "getUserDataFromAccessToken e t w = (Inr JNull, w1)"
  from resolve_null [OF this]
  show "mapAccessToken2UserData w1 = mapAccessToken2UserData w" "prototype w1 = prototype w"
    by auto
qed

text \<open>
  The module is configured, Ann logs in with \<^verbatim>\<open>T1\<close>, then a request comes with \<^verbatim>\<open>T2\<close>:
  Ann's record is cached with the identifier 7, and nothing is cached for \<^verbatim>\<open>T2\<close>.
\<close>

theorem cache_invariant_witness:
  "returning_id site_user \<and>
   mapAccessToken2UserData
     (run [Config site_user, Middleware online login_ann blank,
           Middleware online returning_bob blank] (loaded ([], 7))) ''T1'' = Some ann \<and>
   property ann ''id'' = JNum 7 \<and>
   mapAccessToken2UserData
     (run [Config site_user, Middleware online login_ann blank,
           Middleware online returning_bob blank] (loaded ([], 7))) ''T2'' = None \<and>
   fst (getUserDataFromAccessToken online ''T2'' empty_store) = Inr JNull"
proof -
  let ?calls = "[Config site_user, Middleware online login_ann blank,
           Middleware online returning_bob blank]"
  have calls: "\<forall>c. Config c \<in> set ?calls \<longrightarrow> returning_id c"
    by (simp add: returning_id_site_user)
  have bob: "facebookAuthMiddleware online returning_bob blank
       (logged [SessionSave, Next] ann_known) =
     (None, signed_out returning_bob, blank,
      logged [Request (options ''T2''), ConsoleError (Error ''LOGIN_REQUIRED''),
              ResSend login_required, ResEnd] (logged [SessionSave, Next] ann_known))"
    by (simp add: middleware_defs request_defs signed_out_def login_required_def
        resolver_defs scenario_defs ann_known_def ann_def)
  have world: "run ?calls (loaded ([], 7)) =
      logged [Request (options ''T2''), ConsoleError (Error ''LOGIN_REQUIRED''),
              ResSend login_required, ResEnd] (logged [SessionSave, Next] ann_known)"
    using first_login bob by (simp add: empty_store_def)
  have null: "getUserDataFromAccessToken online ''T2'' empty_store =
      (Inr JNull, logged [Request (options ''T2'')] empty_store)"
    by (simp add: resolver_defs scenario_defs empty_store_def)
  have T1: "mapAccessToken2UserData (run ?calls (loaded ([], 7))) ''T1'' = Some ann"
    and T2: "mapAccessToken2UserData (run ?calls (loaded ([], 7))) ''T2'' = None"
    unfolding world by (simp_all add: logged_def ann_known_def)
  from cache_invariant [OF calls, of "([], 7)" online returning_bob blank empty_store
      None returning_bob blank empty_store "''T2''" JNull
      "logged [Request (options ''T2'')] empty_store"] T1 null
  have "property ann ''id'' \<noteq> JNull \<and> property ann ''id'' \<noteq> JUndefined \<and>
    mapAccessToken2UserData (logged [Request (options ''T2'')] empty_store) =
      mapAccessToken2UserData empty_store"
    by blast
  with T1 T2 null show ?thesis
    by (simp add: returning_id_site_user ann_def)
qed

text \<open>
  The claim as it was written also promises a \<^verbatim>\<open>facebookId\<close> that is not \<^verbatim>\<open>null\<close>. The
  profile of \<^verbatim>\<open>T3\<close> has the key \<^verbatim>\<open>id\<close> with the value \<^verbatim>\<open>null\<close>; it passes the validation,
  which looks at keys only, and after the login the cache holds a record whose
  \<^verbatim>\<open>facebookId\<close> is \<^verbatim>\<open>null\<close>.
\<close>

theorem cache_invariant_counterexample:
  "mapAccessToken2UserData
     (run [Config site_user, Middleware online login_odd blank] (loaded ([], 7))) ''T3''
     = Some (JObj [(''facebookId'', JNull), (''fullName'', JStr []), (''email'', JNum 0),
                   (''id'', JNum 7)]) \<and>
   property (JObj [(''facebookId'', JNull), (''fullName'', JStr []), (''email'', JNum 0),
                   (''id'', JNum 7)]) ''facebookId'' = JNull"
  by (simp add: middleware_defs login_odd_def blank_def resolver_defs scenario_defs)

section \<open>The two ends of a request\<close>

text \<open>
  Claim C6. Off the logout route, when the request carries no token, or when the
  resolution of its token yields \<^verbatim>\<open>null\<close> (or any other value that \<^verbatim>\<open>!userData\<close> takes for
  it), the middleware returns without throwing, \<^verbatim>\<open>req.session.user\<close> is gone, \<^verbatim>\<open>res\<close> is
  untouched, and what the client and the later handlers see is exactly the body
  \<^verbatim>\<open>{ "error": "LOGIN_REQUIRED" }\<close> followed by the end of the response: \<^verbatim>\<open>next\<close> is not
  called.
\<close>

theorem failure_path:
  assumes route: "\<not> isLogoutRoute (Request.url req)"
    and failed: "extractAccessToken req = None \<or>
       (extractAccessToken req = Some accessToken \<and>
        fst (getUserDataFromAccessToken e accessToken w) = Inr userData \<and>
        \<not> truthy userData)"
    and result: "facebookAuthMiddleware e req res w = (thrown, req', res', w')"
  shows "thrown = None \<and> req' = signed_out req \<and> res' = res \<and>
         trace w' = trace w @ new_events w w' \<and>
         filter is_reply (new_events w w') = [ResSend login_required, ResEnd]"
proof (cases "extractAccessToken req")
  case None
  with route result show ?thesis
    by (auto simp: facebookAuthMiddleware_def loginRequired_eq logged_def new_events_def)
next
  case (Some t)
  with failed have t: "t = accessToken"
    and yields: "fst (getUserDataFromAccessToken e accessToken w) = Inr userData"
    and falsy: "\<not> truthy userData"
    by auto
  from yields obtain w1 where r: "getUserDataFromAccessToken e accessToken w = (Inr userData, w1)"
    by (cases "getUserDataFromAccessToken e accessToken w") auto
  from resolve_frame [OF r] obtain es where
    es: "trace w1 = trace w @ es" "list_all (\<lambda>ev. \<not> is_reply ev) es"
    by blast
  then have silent: "filter is_reply es = []"
    by (auto simp: list_all_iff filter_empty_conv)
  from route result Some t falsy r es(1) silent show ?thesis
    by (auto simp: facebookAuthMiddleware_def loginRequired_eq logged_def new_events_def)
qed

text \<open>A request without a token, and the third scenario of section 8 with a session.\<close>

theorem failure_path_witness:
  "\<not> isLogoutRoute (Request.url anonymous) \<and>
   extractAccessToken anonymous = None \<and>
   facebookAuthMiddleware online anonymous blank empty_store =
     (None, signed_out anonymous, blank,
      logged [ResSend login_required, ResEnd] empty_store) \<and>
   session_token (signed_out anonymous) = None \<and>
   extractAccessToken returning_bob = Some ''T2'' \<and>
   fst (getUserDataFromAccessToken online ''T2'' empty_store) = Inr JNull \<and>
   facebookAuthMiddleware online returning_bob blank empty_store =
     (None, signed_out returning_bob, blank,
      logged [Request (options ''T2''), ConsoleError (Error ''LOGIN_REQUIRED''),
              ResSend login_required, ResEnd] empty_store)"
proof -
  have route: "\<not> isLogoutRoute (Request.url anonymous)"
    "\<not> isLogoutRoute (Request.url returning_bob)"
    by (simp_all add: request_defs isLogoutRoute_def)
  have none: "extractAccessToken anonymous = None"
    and bob: "extractAccessToken returning_bob = Some ''T2''"
    by (simp_all add: request_defs extractAccessToken_def token_in_def)
  have null: "fst (getUserDataFromAccessToken online ''T2'' empty_store) = Inr JNull"
    by (simp add: resolver_defs scenario_defs empty_store_def)
  have first: "facebookAuthMiddleware online anonymous blank empty_store =
     (None, signed_out anonymous, blank,
      logged [ResSend login_required, ResEnd] empty_store)"
    by (simp add: middleware_defs request_defs signed_out_def login_required_def)
  have second: "facebookAuthMiddleware online returning_bob blank empty_store =
     (None, signed_out returning_bob, blank,
      logged [Request (options ''T2''), ConsoleError (Error ''LOGIN_REQUIRED''),
              ResSend login_required, ResEnd] empty_store)"
    by (simp add: middleware_defs request_defs signed_out_def login_required_def
        resolver_defs scenario_defs empty_store_def)
  have out: "session_token (signed_out anonymous) = None"
    by (simp add: session_token_def signed_out_def anonymous_def)
  from failure_path [OF route(1) _ first, of "''T2''" JNull]
    failure_path [OF route(2) _ second, of "''T2''" JNull] none bob null
  show ?thesis
    using route first second out by simp
qed

text \<open>
  Claim C7. Off the logout route, when the request carries a token and its resolution
  yields a record, the middleware returns without throwing;
  \<^verbatim>\<open>res.locals.metisoft.user\<close> holds the \<^verbatim>\<open>id\<close>, \<^verbatim>\<open>facebookId\<close>, \<^verbatim>\<open>email\<close> and \<^verbatim>\<open>fullName\<close> of
  the record; a request without session is left as it was, and a session that exists
  now holds the token and was asked to save itself, the error of a failed save being
  logged and nothing more; what the later handlers and the client see is the one call
  of \<^verbatim>\<open>next\<close>, and no response. This holds whether the session store reports the outcome
  of the save before \<^verbatim>\<open>save\<close> returns or later.
\<close>

theorem success_path:
  assumes route: "\<not> isLogoutRoute (Request.url req)"
    and token: "extractAccessToken req = Some accessToken"
    and resolved: "getUserDataFromAccessToken e accessToken w = (Inr userData, w1)"
    and nonnull: "truthy userData"
    and result: "facebookAuthMiddleware e req res w = (thrown, req', res', w')"
  shows "thrown = None \<and>
         identity_field res' ''id'' = Some (property userData ''id'') \<and>
         identity_field res' ''facebookId'' = Some (property userData ''facebookId'') \<and>
         identity_field res' ''email'' = Some (property userData ''email'') \<and>
         identity_field res' ''fullName'' = Some (property userData ''fullName'') \<and>
         (session req = None \<longrightarrow> req' = req) \<and>
         (session req \<noteq> None \<longrightarrow>
            session_token req' = Some accessToken \<and> Request.url req' = Request.url req \<and>
            body req' = body req \<and> SessionSave \<in> set (new_events w w')) \<and>
         (session req \<noteq> None \<and> save_error e = Some err \<longrightarrow>
            ConsoleError err \<in> set (new_events w w')) \<and>
         trace w' = trace w @ new_events w w' \<and>
         filter is_reply (new_events w w') = [Next]"
proof -
  from resolve_frame [OF resolved] obtain es where
    es: "trace w1 = trace w @ es" "list_all (\<lambda>ev. \<not> is_reply ev) es"
    by blast
  then have silent: "filter is_reply es = []"
    by (auto simp: list_all_iff filter_empty_conv)
  show ?thesis
  proof (cases "session req")
    case None
    with route token resolved nonnull result es(1) silent show ?thesis
      by (auto simp: facebookAuthMiddleware_def logged_def new_events_def identify_fields)
  next
    case (Some s)
    with route token resolved nonnull result es(1) silent show ?thesis
      by (auto simp: facebookAuthMiddleware_def logged_def new_events_def identify_fields
          remember_token save_callback_def split: option.splits)
  qed
qed

text \<open>
  The first scenario of section 8 on a day when the session store fails to save, with a
  store that reports it later and with one that reports it at once.
\<close>

theorem success_path_witness:
  "\<not> isLogoutRoute (Request.url login_ann) \<and>
   extractAccessToken login_ann = Some ''T1'' \<and>
   getUserDataFromAccessToken store_down ''T1'' empty_store = (Inr ann, ann_known) \<and>
   truthy ann \<and>
   fst (facebookAuthMiddleware store_down login_ann blank empty_store) = None \<and>
   identity_field
     (fst (snd (snd (facebookAuthMiddleware store_down login_ann blank empty_store))))
     ''id'' = Some (JNum 7) \<and>
   identity_field
     (fst (snd (snd (facebookAuthMiddleware store_down login_ann blank empty_store))))
     ''facebookId'' = Some (JStr ''F1'') \<and>
   session_token (fst (snd (facebookAuthMiddleware store_down login_ann blank empty_store)))
     = Some ''T1'' \<and>
   snd (snd (snd (facebookAuthMiddleware store_down login_ann blank empty_store))) =
     logged [SessionSave, Next, ConsoleError (Error ''session store down'')] ann_known \<and>
   snd (snd (snd (facebookAuthMiddleware (store_down\<lparr>save_at_once := True\<rparr>) login_ann blank
     empty_store))) =
     logged [SessionSave, ConsoleError (Error ''session store down''), Next] ann_known"
proof -
  let ?m = "facebookAuthMiddleware store_down login_ann blank empty_store"
  let ?n = "facebookAuthMiddleware (store_down\<lparr>save_at_once := True\<rparr>) login_ann blank
     empty_store"
  have route: "\<not> isLogoutRoute (Request.url login_ann)"
    by (simp add: request_defs isLogoutRoute_def)
  have token: "extractAccessToken login_ann = Some ''T1''"
    by (simp add: request_defs extractAccessToken_def token_in_def)
  have resolved: "getUserDataFromAccessToken store_down ''T1'' empty_store = (Inr ann, ann_known)"
    by (simp add: resolver_defs scenario_defs empty_store_def ann_known_def ann_def
        ann_fresh_def ann_row_def store_down_def)
  have resolved': "getUserDataFromAccessToken (store_down\<lparr>save_at_once := True\<rparr>) ''T1''
      empty_store = (Inr ann, ann_known)"
    by (simp add: resolver_defs scenario_defs empty_store_def ann_known_def ann_def
        ann_fresh_def ann_row_def store_down_def)
  have nonnull: "truthy ann"
    by (simp add: ann_def)
  have result: "?m = (fst ?m, fst (snd ?m), fst (snd (snd ?m)), snd (snd (snd ?m)))"
    by simp
  have sess: "session login_ann = Some \<lparr>Session.user = None\<rparr>"
    by (simp add: login_ann_def)
  have save: "save_error store_down = Some (Error ''session store down'')"
    "save_at_once store_down = False"
    by (simp_all add: store_down_def)
  have world: "snd (snd (snd ?m)) =
     logged [SessionSave, Next, ConsoleError (Error ''session store down'')] ann_known"
    by (simp add: facebookAuthMiddleware_def Let_def route token resolved nonnull sess save
        save_callback_def)
  have world': "snd (snd (snd ?n)) =
     logged [SessionSave, ConsoleError (Error ''session store down''), Next] ann_known"
    by (simp add: facebookAuthMiddleware_def Let_def route token resolved' nonnull sess save
        save_callback_def)
  have fields: "property ann ''id'' = JNum 7" "property ann ''facebookId'' = JStr ''F1''"
    by (simp_all add: ann_def)
  have "session login_ann \<noteq> None"
    by (simp add: login_ann_def)
  with success_path [OF route token resolved nonnull result] fields world world'
  show ?thesis
    using route token resolved nonnull by simp
qed

section \<open>Logout\<close>

text \<open>
  Claim C8 says that every request to the logout route whose token is a key of the cache
  leaves the cache without it, the session destroyed and the request on its way to the
  later handlers. The code does not do so when the token comes in the body of a request
  that has no session: the entry for \<^verbatim>\<open>T1\<close> is deleted, then the call throws as in claim
  C2, and \<^verbatim>\<open>next\<close> is not called.
\<close>

theorem logout_eviction_without_session:
  "isLogoutRoute (Request.url logout_ann) \<and>
   extractAccessToken logout_ann = Some ''T1'' \<and>
   mapAccessToken2UserData ann_known ''T1'' = Some ann \<and>
   facebookAuthMiddleware online logout_ann blank ann_known =
     (Some TypeError, logout_ann, blank,
      ann_known\<lparr>mapAccessToken2UserData := Map.empty\<rparr>) \<and>
   filter is_reply
     (new_events ann_known
        (snd (snd (snd (facebookAuthMiddleware online logout_ann blank ann_known))))) = []"
  by (simp add: middleware_defs logout_ann_def ann_known_def new_events_def)

text \<open>
  With a session the round trip is as the claim has it: the token is no key any more,
  the session is destroyed and off the request, \<^verbatim>\<open>res\<close> is untouched, \<^verbatim>\<open>next\<close> is called,
  and resolving the token again, when no property of the cache object hides the method
  of line 47, calls the provider.
\<close>

lemma logout_round_trip:
  assumes "isLogoutRoute (Request.url req)" and "session req = Some s"
    and "extractAccessToken req = Some t"
    and "facebookAuthMiddleware e req res w = (thrown, req', res', w')"
  shows "thrown = None \<and> mapAccessToken2UserData w' t = None \<and> session req' = None \<and>
         res' = res \<and> new_events w w' = [SessionDestroy, Next] \<and>
         (\<not> shadowed w' \<longrightarrow>
            cached w' t = Inr False \<and>
            length (filter is_provider_call
              (new_events w' (snd (getUserDataFromAccessToken e' t w')))) = 1)"
proof -
  from assms have w': "w' = logged [SessionDestroy, Next]
      (w\<lparr>mapAccessToken2UserData := (mapAccessToken2UserData w)(t := None)\<rparr>)"
    and rest: "thrown = None" "req' = req\<lparr>session := None\<rparr>" "res' = res"
    by (auto simp: facebookAuthMiddleware_def property_key_def)
  then have miss: "mapAccessToken2UserData w' t = None"
    by (simp add: logged_def)
  obtain a w1 where v: "verifyAndSave e' t w' = (a, w1)"
    by (cases "verifyAndSave e' t w'")
  from verifyAndSave_frame [OF v] obtain es where
    es: "trace w1 = trace w' @ Request (options t) # es"
      "list_all (\<lambda>ev. \<not> is_provider_call ev \<and> \<not> is_reply ev) es"
    by blast
  then have silent: "filter is_provider_call es = []"
    by (auto simp: list_all_iff filter_empty_conv)
  {
    assume "\<not> shadowed w'"
    with miss have c: "cached w' t = Inr False"
      by (auto simp: cached_def)
    with v es(1) silent have "length (filter is_provider_call
           (new_events w' (snd (getUserDataFromAccessToken e' t w')))) = 1"
      by (auto simp: resolve_miss new_events_def logged_def assign_def split: sum.splits)
    note c this
  }
  with w' rest miss show ?thesis
    by (simp add: new_events_def logged_def)
qed

section \<open>Validation looks at keys only\<close>

text \<open>
  A profile that has the own properties \<^verbatim>\<open>id\<close>, \<^verbatim>\<open>name\<close> and \<^verbatim>\<open>email\<close>, and none named
  \<^verbatim>\<open>hasOwnProperty\<close>, is valid whatever the values are, and is translated value by
  value. When the provider sends it for a token that line 47 does not find, and the
  store holds no record with a truthy \<^verbatim>\<open>id\<close> for it and accepts the insert, the select
  and the insert with the three values are sent to the store, the database is what the
  insert left, and the translation with the identifier of the new row is the result of
  the resolution and what line 67 assigns to the cache object under the token.
\<close>

lemma presence_only_validation:
  assumes "set [''id'', ''name'', ''email''] \<subseteq> set (map fst ps)"
    and "''hasOwnProperty'' \<notin> set (map fst ps)"
  shows "isValidFacebookUserData (JObj ps) = Inr True \<and>
         formatUserDataAsInternal (JObj ps) =
           Inr [(''facebookId'', property (JObj ps) ''id''),
                (''fullName'', property (JObj ps) ''name''),
                (''email'', property (JObj ps) ''email'')] \<and>
         (cached w accessToken = Inr False \<and>
          request e (options accessToken) = Inr (Text (JObj ps)) \<and>
          dbc w = Some c \<and>
          c (Select_site_user (property (JObj ps) ''id'')) (database w) = (Inr found, db) \<and>
          get_property found ''id'' = Inr i \<and> \<not> truthy i \<and>
          c (Insert_site_user (property (JObj ps) ''id'') (property (JObj ps) ''email'')
               (property (JObj ps) ''name'')) db = (Inr row, db') \<and>
          get_property row ''id'' = Inr generated \<and> generated \<noteq> JNull \<longrightarrow>
            getUserDataFromAccessToken e accessToken w =
              (Inr (JObj [(''facebookId'', property (JObj ps) ''id''),
                          (''fullName'', property (JObj ps) ''name''),
                          (''email'', property (JObj ps) ''email''), (''id'', generated)]),
               assign accessToken
                 (JObj [(''facebookId'', property (JObj ps) ''id''),
                        (''fullName'', property (JObj ps) ''name''),
                        (''email'', property (JObj ps) ''email''), (''id'', generated)])
                 (w\<lparr>database := db',
                    trace := trace w @
                      [Request (options accessToken),
                       SaveUserToDb [(''facebookId'', property (JObj ps) ''id''),
                                     (''fullName'', property (JObj ps) ''name''),
                                     (''email'', property (JObj ps) ''email'')],
                       Query (Select_site_user (property (JObj ps) ''id'')),
                       Query (Insert_site_user (property (JObj ps) ''id'')
                                (property (JObj ps) ''email'')
                                (property (JObj ps) ''name''))]\<rparr>)))"
proof -
  let ?u = "[(''facebookId'', property (JObj ps) ''id''),
             (''fullName'', property (JObj ps) ''name''),
             (''email'', property (JObj ps) ''email'')]"
  from assms have valid: "isValidFacebookUserData (JObj ps) = Inr True"
    by (simp add: isValidFacebookUserData_def)
  have fields: "property (JObj ?u) ''facebookId'' = property (JObj ps) ''id''"
    "property (JObj ?u) ''email'' = property (JObj ps) ''email''"
    "property (JObj ?u) ''fullName'' = property (JObj ps) ''name''"
    by simp_all
  {
    assume a: "cached w accessToken = Inr False \<and>
          request e (options accessToken) = Inr (Text (JObj ps)) \<and>
          dbc w = Some c \<and>
          c (Select_site_user (property (JObj ps) ''id'')) (database w) = (Inr found, db) \<and>
          get_property found ''id'' = Inr i \<and> \<not> truthy i \<and>
          c (Insert_site_user (property (JObj ps) ''id'') (property (JObj ps) ''email'')
               (property (JObj ps) ''name'')) db = (Inr row, db') \<and>
          get_property row ''id'' = Inr generated \<and> generated \<noteq> JNull"
    let ?w = "logged [Request (options accessToken)] w"
    from a have c: "dbc ?w = Some c"
      and lookup: "c (Select_site_user (property (JObj ?u) ''facebookId'')) (database ?w)
          = (Inr found, db)"
      and insert: "c (Insert_site_user (property (JObj ?u) ''facebookId'')
          (property (JObj ?u) ''email'') (property (JObj ?u) ''fullName'')) db = (Inr row, db')"
      unfolding fields by (simp_all add: logged_def)
    from a have found_id: "get_property found ''id'' = Inr i" and falsy: "\<not> truthy i"
      and row_id: "get_property row ''id'' = Inr generated"
      by simp_all
    have "saveUserToDb ?u ?w =
        (Inr (JObj (AList.update ''id'' generated ?u)),
         ?w\<lparr>database := db',
             trace := trace ?w @
               [SaveUserToDb ?u,
                Query (Select_site_user (property (JObj ?u) ''facebookId'')),
                Query (Insert_site_user (property (JObj ?u) ''facebookId'')
                         (property (JObj ?u) ''email'') (property (JObj ?u) ''fullName''))]\<rparr>)"
      using saveUserToDb_inserted [OF c lookup found_id] falsy insert row_id by blast
    then have "saveUserToDb ?u ?w =
        (Inr (JObj (?u @ [(''id'', generated)])),
         w\<lparr>database := db',
            trace := trace w @
              [Request (options accessToken), SaveUserToDb ?u,
               Query (Select_site_user (property (JObj ps) ''id'')),
               Query (Insert_site_user (property (JObj ps) ''id'')
                        (property (JObj ps) ''email'') (property (JObj ps) ''name''))]\<rparr>)"
      unfolding fields by (simp add: logged_def del: property.simps)
    with a valid have "getUserDataFromAccessToken e accessToken w =
              (Inr (JObj (?u @ [(''id'', generated)])),
               assign accessToken (JObj (?u @ [(''id'', generated)]))
                 (w\<lparr>database := db',
                    trace := trace w @
                      [Request (options accessToken), SaveUserToDb ?u,
                       Query (Select_site_user (property (JObj ps) ''id'')),
                       Query (Insert_site_user (property (JObj ps) ''id'')
                                (property (JObj ps) ''email'')
                                (property (JObj ps) ''name''))]\<rparr>))"
      by (simp add: resolve_miss verifyAndSave_valid logged_def del: property.simps)
  }
  with valid show ?thesis
    by (simp add: format_valid del: property.simps)
qed

text \<open>The profile of \<^verbatim>\<open>T3\<close>: \<^verbatim>\<open>null\<close>, the empty string and 0 go through and are cached.\<close>

lemma presence_only_validation_of_T3:
  "property odd_profile ''id'' = JNull \<and>
   property odd_profile ''name'' = JStr [] \<and>
   property odd_profile ''email'' = JNum 0 \<and>
   isValidFacebookUserData odd_profile = Inr True \<and>
   fst (getUserDataFromAccessToken online ''T3'' empty_store) = Inr odd_record \<and>
   mapAccessToken2UserData (snd (getUserDataFromAccessToken online ''T3'' empty_store)) ''T3''
     = Some odd_record \<and>
   database (snd (getUserDataFromAccessToken online ''T3'' empty_store)) =
     ([[(''id'', JNum 7), (''facebookId'', JNull), (''email'', JNum 0),
        (''fullName'', JStr [])]], 8) \<and>
   new_events empty_store (snd (getUserDataFromAccessToken online ''T3'' empty_store)) =
     [Request (options ''T3''),
      SaveUserToDb [(''facebookId'', JNull), (''fullName'', JStr []), (''email'', JNum 0)],
      Query (Select_site_user JNull), Query (Insert_site_user JNull (JNum 0) (JStr []))]"
  by (simp add: resolver_defs scenario_defs empty_store_def odd_record_def new_events_def)

text \<open>
  Claim C9 says that every parsed profile in which \<^verbatim>\<open>id\<close>, \<^verbatim>\<open>name\<close> and \<^verbatim>\<open>email\<close> are own
  properties is valid whatever the values, and is translated, persisted, cached and
  returned. The code validates with \<^verbatim>\<open>facebookUserData.hasOwnProperty(...)\<close> (lines
  119-121), a call of whatever the profile holds under that name. The profile of \<^verbatim>\<open>T5\<close>
  has the three keys and a fourth, \<^verbatim>\<open>hasOwnProperty\<close>, with the value 1: the validation
  throws, the error is logged, the resolution yields \<^verbatim>\<open>null\<close>, the store is not called
  and nothing is cached.
\<close>

theorem validation_throws_on_own_hasOwnProperty:
  "request online (options ''T5'') = Inr (Text eve_profile) \<and>
   eve_profile =
     JObj [(''id'', JStr ''F5''), (''name'', JStr ''Eve''), (''email'', JStr ''e@x.com''),
           (''hasOwnProperty'', JNum 1)] \<and>
   isValidFacebookUserData eve_profile = Inl TypeError \<and>
   cached empty_store ''T5'' = Inr False \<and>
   getUserDataFromAccessToken online ''T5'' empty_store =
     (Inr JNull, logged [Request (options ''T5''), ConsoleError TypeError] empty_store) \<and>
   mapAccessToken2UserData
     (logged [Request (options ''T5''), ConsoleError TypeError] empty_store) ''T5'' = None \<and>
   database (logged [Request (options ''T5''), ConsoleError TypeError] empty_store) = ([], 7)"
  by (simp add: resolver_defs scenario_defs empty_store_def)

section \<open>A module that was never configured\<close>

text \<open>
  Claim C10. While \<^verbatim>\<open>config\<close> has not run, the resolution of a token that line 47 does not
  find in the cache and whose profile is valid calls the provider and enters the store
  adapter, where \<^verbatim>\<open>dbc.getSquelSelect()\<close> throws; the \<^verbatim>\<open>TypeError\<close> is logged, the result is
  \<^verbatim>\<open>null\<close> and the cache is what it was. The middleware, off the logout route, then
  returns without throwing and answers \<^verbatim>\<open>{ "error": "LOGIN_REQUIRED" }\<close>.
\<close>

theorem unconfigured_fails_gracefully:
  assumes "dbc w = None"
    and "cached w accessToken = Inr False"
    and "request e (options accessToken) = Inr (Text profile)"
    and "isValidFacebookUserData profile = Inr True"
  shows "getUserDataFromAccessToken e accessToken w =
           (Inr JNull,
            logged [Request (options accessToken),
                    SaveUserToDb [(''facebookId'', property profile ''id''),
                                  (''fullName'', property profile ''name''),
                                  (''email'', property profile ''email'')],
                    ConsoleError TypeError] w) \<and>
         (\<not> isLogoutRoute (Request.url req) \<and> extractAccessToken req = Some accessToken \<longrightarrow>
            facebookAuthMiddleware e req res w =
              (None, signed_out req, res,
               logged [Request (options accessToken),
                       SaveUserToDb [(''facebookId'', property profile ''id''),
                                     (''fullName'', property profile ''name''),
                                     (''email'', property profile ''email'')],
                       ConsoleError TypeError,
                       ConsoleError (Error ''LOGIN_REQUIRED''),
                       ResSend login_required, ResEnd] w))"
proof -
  have r: "getUserDataFromAccessToken e accessToken w =
           (Inr JNull,
            logged [Request (options accessToken),
                    SaveUserToDb [(''facebookId'', property profile ''id''),
                                  (''fullName'', property profile ''name''),
                                  (''email'', property profile ''email'')],
                    ConsoleError TypeError] w)"
    using assms
    by (simp add: resolve_miss verifyAndSave_valid saveUserToDb_def getUserFromDb_def
        logged_def)
  then show ?thesis
    by (simp add: facebookAuthMiddleware_def loginRequired_eq logged_def)
qed

text \<open>Ann logs in with \<^verbatim>\<open>T1\<close> on the module as it was loaded.\<close>

theorem unconfigured_fails_gracefully_witness:
  "dbc (loaded ([], 7) :: table world) = None \<and>
   isValidFacebookUserData ann_profile = Inr True \<and>
   fst (getUserDataFromAccessToken online ''T1'' (loaded ([], 7) :: table world)) = Inr JNull \<and>
   mapAccessToken2UserData
     (snd (getUserDataFromAccessToken online ''T1'' (loaded ([], 7) :: table world))) ''T1''
     = None \<and>
   facebookAuthMiddleware online login_ann blank (loaded ([], 7) :: table world) =
     (None, signed_out login_ann, blank,
      logged [Request (options ''T1''), SaveUserToDb ann_fresh,
              ConsoleError TypeError, ConsoleError (Error ''LOGIN_REQUIRED''),
              ResSend login_required, ResEnd] (loaded ([], 7)))"
proof -
  have unconfigured: "dbc (loaded ([], 7) :: table world) = None"
    and miss: "cached (loaded ([], 7) :: table world) ''T1'' = Inr False"
    by (simp_all add: loaded_def cached_def shadowed_def)
  have answer: "request online (options ''T1'') = Inr (Text ann_profile)"
    by (simp add: online_def facebook_def authorization_def options_def)
  have valid: "isValidFacebookUserData ann_profile = Inr True"
    by (simp add: ann_profile_def isValidFacebookUserData_def)
  have route: "\<not> isLogoutRoute (Request.url login_ann) \<and>
      extractAccessToken login_ann = Some ''T1''"
    by (simp add: login_ann_def isLogoutRoute_def extractAccessToken_def token_in_def)
  from unconfigured_fails_gracefully [OF unconfigured miss answer valid, of login_ann blank]
    route unconfigured valid
  show ?thesis
    by (simp add: ann_profile_def ann_fresh_def logged_def loaded_def)
qed

text \<open>
  While \<^verbatim>\<open>config\<close> has not run nothing is ever cached, so line 47 finds no token: after
  any sequence of calls of the middleware on the freshly loaded module there is no
  connection, the cache object has no own property and its prototype is what it was.
\<close>

lemma unconfigured_resolution:
  assumes "dbc w = None" and "mapAccessToken2UserData w = Map.empty"
    and "prototype w = None"
    and "getUserDataFromAccessToken e t w = (r, w')"
  shows "r = Inr JNull \<and> dbc w' = None \<and> mapAccessToken2UserData w' = Map.empty \<and>
         prototype w' = None"
proof -
  from assms(2,3) have miss: "cached w t = Inr False"
    by (simp add: cached_def shadowed_def)
  obtain a w1 where v: "verifyAndSave e t w = (a, w1)"
    by (cases "verifyAndSave e t w")
  from verifyAndSave_frame [OF v] assms(1,2,3) have
    frame: "dbc w1 = None" "mapAccessToken2UserData w1 = Map.empty" "prototype w1 = None"
    by simp_all
  have "userData = JNull" if "a = Inr userData" for userData
    using v assms(1) that
    by (auto simp: verifyAndSave_def getUserDataFromFacebook_def saveUserToDb_def
        getUserFromDb_def logged_def split: sum.splits bool.splits)
  with assms(4) miss v frame show ?thesis
    by (cases a) (auto simp: resolve_miss logged_def)
qed

lemma unconfigured_middleware:
  assumes "dbc w = None" and "mapAccessToken2UserData w = Map.empty"
    and "prototype w = None"
    and "facebookAuthMiddleware e req res w = (thrown, req', res', w')"
  shows "dbc w' = None \<and> mapAccessToken2UserData w' = Map.empty \<and> prototype w' = None"
proof (cases "isLogoutRoute (Request.url req)")
  case True
  with assms show ?thesis
    by (auto simp: facebookAuthMiddleware_def Let_def logged_def split: option.splits)
next
  case False
  show ?thesis
  proof (cases "extractAccessToken req")
    case None
    with False assms show ?thesis
      by (auto simp: facebookAuthMiddleware_def loginRequired_eq logged_def)
  next
    case (Some t)
    obtain r w1 where r: "getUserDataFromAccessToken e t w = (r, w1)"
      by (cases "getUserDataFromAccessToken e t w")
    from unconfigured_resolution [OF assms(1,2,3) r] False Some r assms(4)
    show ?thesis
      by (auto simp: facebookAuthMiddleware_def loginRequired_eq logged_def)
  qed
qed

lemma unconfigured_run:
  assumes "\<forall>c. Config c \<notin> set calls"
  shows "dbc (run calls (loaded db)) = None \<and>
         mapAccessToken2UserData (run calls (loaded db)) = Map.empty \<and>
         prototype (run calls (loaded db)) = None \<and>
         cached (run calls (loaded db)) accessToken = Inr False"
proof -
  have "dbc (run calls w) = None \<and> mapAccessToken2UserData (run calls w) = Map.empty \<and>
      prototype (run calls w) = None"
    if "dbc w = None" and "mapAccessToken2UserData w = Map.empty" and "prototype w = None"
    for w :: "'a world"
    using assms that
  proof (induction calls arbitrary: w)
    case Nil
    then show ?case
      by simp
  next
    case (Cons call calls)
    from Cons.prems(1) obtain e req res where call: "call = Middleware e req res"
      by (cases call) auto
    obtain thrown req' res' w' where
      m: "facebookAuthMiddleware e req res w = (thrown, req', res', w')"
      by (cases "facebookAuthMiddleware e req res w") auto
    from Cons.prems(1) have rest: "\<forall>c. Config c \<notin> set calls"
      by simp
    from unconfigured_middleware [OF Cons.prems(2,3,4) m] have
      "dbc w' = None" "mapAccessToken2UserData w' = Map.empty" "prototype w' = None"
      by simp_all
    from Cons.IH [OF rest this] call m show ?case
      by simp
  qed
  then show ?thesis
    by (simp add: loaded_def cached_def shadowed_def)
qed

end
